theory Spec2Isabelle
  imports Main
begin

section \<open>Data model (src/types.ts)\<close>

text \<open>
  The union types of the source are datatypes. Notification and delivery statuses share
  the words pending, sent, delivered and failed in the source; the constructors carry a
  prefix to keep the two types apart.
\<close>

datatype ChannelType = inapp | push | email | sms | webhook

datatype NotificationStatus = StPending | StSent | StDelivered | StFailed | StRead

datatype NotificationPriority = low | normal | high | urgent

datatype DeliveryStatus = DsPending | DsSent | DsDelivered | DsFailed | DsBounced

text \<open>
  Every error of the engine is a JavaScript \<open>Error\<close> object that carries a message; the
  kinds the specification names (filtered, template not found, notification not found)
  differ by their message only.
\<close>

datatype error = Error string

text \<open>
  A \<open>Date\<close> is its time value in milliseconds. An optional field of the source is an
  \<open>option\<close>, \<open>None\<close> standing for \<open>undefined\<close>. The data payload
  (\<open>Record<string, unknown>\<close>) is opaque to the engine and is the type parameter \<open>'d\<close>.
  The interface declares \<open>type\<close>, \<open>title\<close> and \<open>body\<close> as strings, but nothing checks
  that at run time and the repository's own usage example of a template omits them, so
  they are optional here.
\<close>

record NotificationAction =
  a_id :: string
  a_label :: string
  a_url :: "string option"
  a_handler :: "string option"

record 'd Notification =
  n_id :: string
  n_type :: "string option"
  n_title :: "string option"
  n_body :: "string option"
  n_data :: "'d option"
  n_userId :: string
  n_groupId :: "string option"
  n_priority :: NotificationPriority
  n_category :: "string option"
  n_status :: NotificationStatus
  n_readAt :: "int option"
  n_createdAt :: int
  n_scheduledFor :: "int option"
  n_expiresAt :: "int option"
  n_channels :: "ChannelType list"
  n_actions :: "NotificationAction list option"

record 'd NotificationInput =
  i_type :: "string option"
  i_title :: "string option"
  i_body :: "string option"
  i_userId :: string
  i_groupId :: "string option"
  i_data :: "'d option"
  i_priority :: "NotificationPriority option"
  i_category :: "string option"
  i_channels :: "ChannelType list"
  i_scheduledFor :: "int option"
  i_expiresAt :: "int option"
  i_actions :: "NotificationAction list option"
  i_template :: "string option"

record QuietHours =
  q_start :: string
  q_end :: string
  q_timezone :: "string option"

text \<open>The \<open>frequency\<close> field of a channel preference is read nowhere and is left out.\<close>

record ChannelPreferences =
  cp_enabled :: bool
  cp_categories :: "string list option"
  cp_quietHours :: "QuietHours option"

text \<open>The \<open>updatedAt\<close> and \<open>data\<close> fields of the preferences are not read by the
  operations modelled here and are left out.\<close>

record NotificationPreferences =
  p_userId :: string
  p_channels :: "ChannelType \<Rightarrow> ChannelPreferences option"
  p_globalMute :: "bool option"

text \<open>The channel-specific \<open>metadata\<close> of a receipt is left out.\<close>

record DeliveryReceipt =
  r_notificationId :: string
  r_channel :: ChannelType
  r_status :: DeliveryStatus
  r_attempts :: nat
  r_lastAttempt :: int
  r_nextRetry :: "int option"
  r_error :: "string option"

text \<open>
  A template default for title or body is a literal string or a function of the
  caller's data. The function is caller code: it may throw.
\<close>

datatype 'd TemplateText = Literal string | Computed "'d option \<Rightarrow> error + string"

record 'd NotificationTemplate =
  t_id :: string
  t_type :: string
  t_title :: "'d TemplateText"
  t_body :: "'d TemplateText"
  t_channels :: "ChannelType list"
  t_priority :: NotificationPriority
  t_category :: "string option"
  t_expiresIn :: "int option"

section \<open>JavaScript truthiness\<close>

text \<open>
  The source tests optional values with \<open>||\<close>, \<open>&&\<close> and \<open>if\<close>. A string is truthy
  when it is present and not empty; a number when it is present and not zero; an object
  (a \<open>Date\<close>, an array, a record) whenever it is present. A \<open>Date\<close> here always holds
  a time value: the invalid date is not modelled.
\<close>

definition truthy_string :: "string option \<Rightarrow> bool" where
  "truthy_string s = (case s of None \<Rightarrow> False | Some x \<Rightarrow> x \<noteq> [])"

definition or_string :: "string option \<Rightarrow> string option \<Rightarrow> string option" where
  \<comment> \<open>\<open>a || b\<close> on optional strings\<close>
  "or_string a b = (if truthy_string a then a else b)"

section \<open>Preference gate (ConsoleTransportAdapter.canSend, src/unnamed/part\_002)\<close>

text \<open>
  \<open>s.split(':')\<close>: the fields between the colons, never an empty array.
\<close>

fun split_colon :: "string \<Rightarrow> string list" where
  "split_colon [] = [[]]"
| "split_colon (c # cs) =
     (if c = CHR '':'' then [] # split_colon cs
      else (case split_colon cs of
              [] \<Rightarrow> [[c]]
            | w # ws \<Rightarrow> (c # w) # ws))"

text \<open>
  \<open>const [h] = s.split(':').map(Number)\<close>: the first field, converted. The built-in
  \<open>Number\<close> is a parameter of the model: \<open>None\<close> is \<open>NaN\<close>, and the hours of a
  window are integers, so its results are taken in \<open>int\<close>. Every comparison with
  \<open>NaN\<close> or \<open>undefined\<close> is false.
\<close>

definition firstNumber :: "(string \<Rightarrow> int option) \<Rightarrow> string \<Rightarrow> int option" where
  "firstNumber Number s = (case map Number (split_colon s) of [] \<Rightarrow> None | h # _ \<Rightarrow> h)"

definition js_gt :: "int option \<Rightarrow> int option \<Rightarrow> bool" where
  "js_gt a b = (case a of None \<Rightarrow> False | Some x \<Rightarrow> (case b of None \<Rightarrow> False | Some y \<Rightarrow> x > y))"

definition js_ge :: "int option \<Rightarrow> int option \<Rightarrow> bool" where
  "js_ge a b = (case a of None \<Rightarrow> False | Some x \<Rightarrow> (case b of None \<Rightarrow> False | Some y \<Rightarrow> x \<ge> y))"

definition js_lt :: "int option \<Rightarrow> int option \<Rightarrow> bool" where
  "js_lt a b = (case a of None \<Rightarrow> False | Some x \<Rightarrow> (case b of None \<Rightarrow> False | Some y \<Rightarrow> x < y))"

text \<open>
  \<open>inQuietHours\<close> is the body of the \<open>if (channelPref?.quietHours)\<close> block: true when
  that block returns false from \<open>canSend\<close>. \<open>currentHour\<close> is what
  \<open>new Date().getHours()\<close> gave.
\<close>

definition inQuietHours :: "(string \<Rightarrow> int option) \<Rightarrow> QuietHours \<Rightarrow> nat \<Rightarrow> bool" where
  "inQuietHours Number q currentHour =
     (let startHour = firstNumber Number (q_start q);
          endHour = firstNumber Number (q_end q);
          cur = Some (int currentHour)
      in if js_gt startHour endHour
         then js_ge cur startHour \<or> js_lt cur endHour
         else js_ge cur startHour \<and> js_lt cur endHour)"

text \<open>
  \<open>canSend name notification preferences\<close> of the transport called \<open>name\<close>, the four
  checks in the order of the source.
\<close>

definition canSend ::
  "(string \<Rightarrow> int option) \<Rightarrow> ChannelType \<Rightarrow> 'd Notification \<Rightarrow> NotificationPreferences \<Rightarrow> nat \<Rightarrow> bool"
where
  "canSend Number name notification preferences currentHour =
     (if p_globalMute preferences = Some True then False
      else
        let channelPref = p_channels preferences name in
        if (case channelPref of None \<Rightarrow> False | Some cp \<Rightarrow> \<not> cp_enabled cp) then False
        else if (case channelPref of None \<Rightarrow> False
                 | Some cp \<Rightarrow>
                    (case cp_categories cp of None \<Rightarrow> False
                     | Some cats \<Rightarrow>
                        (case n_category notification of None \<Rightarrow> False
                         | Some cat \<Rightarrow> cat \<noteq> [] \<and> cat \<notin> set cats))) then False
        else if (case channelPref of None \<Rightarrow> False
                 | Some cp \<Rightarrow>
                    (case cp_quietHours cp of None \<Rightarrow> False
                     | Some q \<Rightarrow> inQuietHours Number q currentHour)) then False
        else True)"

text \<open>
  A conversion that agrees with \<open>Number\<close> on the strings of decimal digits (the
  \<open>HH\<close> of the documented \<open>HH:mm\<close> format; the empty string converts to 0). It is
  not \<open>Number\<close> on other strings: \<open>Number\<close> also reads surrounding blanks, a sign, a
  fraction, an exponent and the prefixes \<open>0x\<close>, \<open>0o\<close>, \<open>0b\<close>, where this conversion
  answers \<open>NaN\<close>. It is applied only where a window with hour fields of plain digits is
  evaluated; the statements about \<open>canSend\<close> leave \<open>Number\<close> open.
\<close>

definition decimalDigits :: string where
  "decimalDigits = ''0123456789''"

fun position :: "'a \<Rightarrow> 'a list \<Rightarrow> nat option" where
  "position x [] = None"
| "position x (y # ys) = (if x = y then Some 0 else map_option Suc (position x ys))"

definition digitValue :: "char \<Rightarrow> nat option" where
  "digitValue c = position c decimalDigits"

fun digitsValue :: "nat \<Rightarrow> string \<Rightarrow> nat option" where
  "digitsValue acc [] = Some acc"
| "digitsValue acc (c # cs) =
     (case digitValue c of None \<Rightarrow> None | Some d \<Rightarrow> digitsValue (10 * acc + d) cs)"

definition NumberOfDigits :: "string \<Rightarrow> int option" where
  "NumberOfDigits s = map_option int (digitsValue 0 s)"

section \<open>Collaborators and the record of their calls\<close>

text \<open>
  Storage, queue, transports, middleware hooks and subscriber callbacks are code the
  engine does not own. Each is a function on a world \<open>'w\<close> (everything outside the
  engine: the collaborators' own state, the clock) that returns a value or throws, and
  leaves a new world. Nothing is assumed about what they do, except that a collaborator
  handed a notification reads its contents and does not write to the engine's object.
\<close>

type_synonym ('w, 'a) collaborator = "'w \<Rightarrow> (error + 'a) \<times> 'w"

record ('d, 'w) StorageAdapter =
  st_save :: "'d Notification \<Rightarrow> ('w, unit) collaborator"
  st_findById :: "string \<Rightarrow> ('w, 'd Notification option) collaborator"
  st_countUnread :: "string \<Rightarrow> ('w, nat) collaborator"
  st_delete :: "string \<Rightarrow> ('w, unit) collaborator"
  st_getPreferences :: "string \<Rightarrow> ('w, NotificationPreferences) collaborator"
  st_saveReceipt :: "(DeliveryReceipt \<Rightarrow> ('w, unit) collaborator) option"
  st_getReceipts :: "(string \<Rightarrow> ('w, DeliveryReceipt list) collaborator) option"

record ('d, 'w) TransportAdapter =
  ta_name :: ChannelType
  ta_send :: "'d Notification \<Rightarrow> NotificationPreferences \<Rightarrow> ('w, DeliveryReceipt) collaborator"
  ta_canSend :: "'d Notification \<Rightarrow> NotificationPreferences \<Rightarrow> ('w, bool) collaborator"

record ('d, 'w) QueueAdapter =
  qa_enqueue :: "'d Notification \<Rightarrow> ('w, unit) collaborator"
  qa_enqueueDelayed :: "'d Notification \<Rightarrow> int \<Rightarrow> ('w, unit) collaborator"

record ('d, 'w) NotificationMiddleware =
  m_name :: string
  m_beforeSend :: "('d Notification \<Rightarrow> ('w, 'd Notification option) collaborator) option"
  m_afterSend :: "('d Notification \<Rightarrow> ('w, unit) collaborator) option"
  m_onError :: "(error \<Rightarrow> 'd Notification \<Rightarrow> ('w, unit) collaborator) option"

datatype EventType = EvSent | EvDelivered | EvRead | EvFailed

record 'd NotificationEvent =
  ev_type :: EventType
  ev_notification :: "'d Notification"
  ev_timestamp :: int

text \<open>
  The engine's own fields. A \<open>Map\<close> is a partial function; a \<open>Set\<close> of callbacks is
  the list of its members in insertion order, the order \<open>forEach\<close> visits them in.
  \<open>Date_now\<close> reads the clock (\<open>Date.now()\<close>, \<open>new Date()\<close>) and \<open>Math_random\<close> is
  \<open>Math.random().toString(36).substr(2, 9)\<close>, both taken from the world.
  The operations modelled below read these fields and do not write them; a collaborator
  that calls back into the engine while an operation runs is outside the model.
\<close>

record ('d, 'w) NotificationCenter =
  c_storage :: "('d, 'w) StorageAdapter"
  c_transports :: "ChannelType \<Rightarrow> ('d, 'w) TransportAdapter option"
  c_queue :: "('d, 'w) QueueAdapter option"
  c_templates :: "string \<Rightarrow> 'd NotificationTemplate option"
  c_middleware :: "('d, 'w) NotificationMiddleware list"
  c_subscribers :: "string \<Rightarrow> ('d Notification \<Rightarrow> ('w, unit) collaborator) list option"
  c_eventSubscribers :: "string \<Rightarrow> ('d NotificationEvent \<Rightarrow> ('w, unit) collaborator) list option"
  c_unreadSubscribers :: "string \<Rightarrow> (nat \<Rightarrow> string \<Rightarrow> ('w, unit) collaborator) list option"
  Date_now :: "'w \<Rightarrow> int \<times> 'w"
  Math_random :: "'w \<Rightarrow> string \<times> 'w"

text \<open>
  The constructor fills the transport map from the configured list with
  \<open>this.transports.set(transport.name, transport)\<close>: a later transport of the same name
  replaces an earlier one.
\<close>

fun transportsMap ::
  "('d, 'w) TransportAdapter list \<Rightarrow> ChannelType \<Rightarrow> ('d, 'w) TransportAdapter option"
where
  "transportsMap [] = (\<lambda>_. None)"
| "transportsMap (t # ts) =
     (\<lambda>ch. case transportsMap ts ch of
              Some t' \<Rightarrow> Some t'
            | None \<Rightarrow> if ta_name t = ch then Some t else None)"

text \<open>
  Every call the engine makes to a collaborator is recorded, in the order the calls are
  made. The record is kept beside the world, where no collaborator can write it.
\<close>

datatype 'd call =
    BeforeSendCall string "'d Notification"
  | AfterSendCall string "'d Notification"
  | OnErrorCall string error "'d Notification"
  | StorageSave "'d Notification"
  | StorageFindById string
  | StorageCountUnread string
  | StorageDelete string
  | StorageGetPreferences string
  | StorageSaveReceipt DeliveryReceipt
  | StorageGetReceipts string
  | QueueEnqueue "'d Notification"
  | QueueEnqueueDelayed "'d Notification" int
  | TransportCanSend ChannelType "'d Notification"
  | TransportSend ChannelType "'d Notification"
  | SubscriberCall string "'d Notification"
  | EventSubscriberCall string "'d NotificationEvent"
  | UnreadSubscriberCall string nat

type_synonym ('d, 'w) state = "'d call list \<times> 'w"

text \<open>
  An asynchronous operation takes the state and settles: it resolves with a value
  (\<open>Inr\<close>) or rejects with an error (\<open>Inl\<close>), and leaves a new state. \<open>andThen\<close> is
  \<open>await\<close> followed by the rest of the function; \<open>tryCatch\<close> is \<open>try { } catch { }\<close>.
\<close>

type_synonym ('d, 'w, 'e, 'a) async = "('d, 'w) state \<Rightarrow> ('e + 'a) \<times> ('d, 'w) state"

definition resolve :: "'a \<Rightarrow> ('d, 'w, 'e, 'a) async" where
  "resolve x s = (Inr x, s)"

definition reject :: "'e \<Rightarrow> ('d, 'w, 'e, 'a) async" where
  "reject e s = (Inl e, s)"

definition andThen ::
  "('d, 'w, 'e, 'a) async \<Rightarrow> ('a \<Rightarrow> ('d, 'w, 'e, 'b) async) \<Rightarrow> ('d, 'w, 'e, 'b) async"
where
  "andThen m f s = (case m s of (Inl e, s') \<Rightarrow> (Inl e, s') | (Inr x, s') \<Rightarrow> f x s')"

definition tryCatch ::
  "('d, 'w, 'e, 'a) async \<Rightarrow> ('e \<Rightarrow> ('d, 'w, 'f, 'a) async) \<Rightarrow> ('d, 'w, 'f, 'a) async"
where
  "tryCatch m h s = (case m s of (Inl e, s') \<Rightarrow> h e s' | (Inr x, s') \<Rightarrow> (Inr x, s'))"

definition invoke :: "'d call \<Rightarrow> ('w, 'a) collaborator \<Rightarrow> ('d, 'w, error, 'a) async" where
  \<comment> \<open>call a collaborator: record the call, then let it act on the world\<close>
  "invoke c f s = (case f (snd s) of (r, w') \<Rightarrow> (r, (fst s @ [c], w')))"

definition readClock :: "('d, 'w) NotificationCenter \<Rightarrow> ('d, 'w, 'e, int) async" where
  "readClock center s = (case Date_now center (snd s) of (t, w') \<Rightarrow> (Inr t, (fst s, w')))"

definition readRandom :: "('d, 'w) NotificationCenter \<Rightarrow> ('d, 'w, 'e, string) async" where
  "readRandom center s = (case Math_random center (snd s) of (r, w') \<Rightarrow> (Inr r, (fst s, w')))"

text \<open>
  The source mutates the notification object in place (\<open>notification.status = ...\<close> in
  \<open>sendNow\<close>), and the \<open>catch\<close> block of \<open>send\<close> hands the object, as it is by then,
  to the error hooks. An operation that works on the object therefore rejects with the
  error together with the object's contents at that moment, and resolves with the
  contents it leaves. \<open>holding n m\<close> runs \<open>m\<close>, which does not touch the object.
\<close>

definition holding :: "'n \<Rightarrow> ('d, 'w, error, 'a) async \<Rightarrow> ('d, 'w, error \<times> 'n, 'a) async" where
  "holding n m s = (case m s of (Inl e, s') \<Rightarrow> (Inl (e, n), s') | (Inr x, s') \<Rightarrow> (Inr x, s'))"

section \<open>Building a notification (buildNotification, generateId)\<close>

definition digitChar :: "nat \<Rightarrow> char" where
  \<comment> \<open>the digit for a number below ten\<close>
  "digitChar d = decimalDigits ! d"

function decimalNat :: "nat \<Rightarrow> string" where
  "decimalNat n = (if n < 10 then [digitChar n] else decimalNat (n div 10) @ [digitChar (n mod 10)])"
  by pat_completeness auto
termination
  by (relation "measure id") auto

declare decimalNat.simps [simp del]

definition decimalInt :: "int \<Rightarrow> string" where
  \<comment> \<open>an integer inside a template literal\<close>
  "decimalInt i = (if i < 0 then CHR ''-'' # decimalNat (nat (- i)) else decimalNat (nat i))"

definition generateId :: "('d, 'w) NotificationCenter \<Rightarrow> ('d, 'w, error, string) async" where
  "generateId center =
     andThen (readClock center) (\<lambda>now.
     andThen (readRandom center) (\<lambda>suffix.
     resolve (''notif_'' @ decimalInt now @ ''_'' @ suffix)))"

definition templateText :: "'d TemplateText \<Rightarrow> 'd option \<Rightarrow> error + string" where
  \<comment> \<open>\<open>typeof x === 'function' ? x(input.data) : x\<close>\<close>
  "templateText x d = (case x of Literal s \<Rightarrow> Inr s | Computed f \<Rightarrow> f d)"

definition resolveText :: "'d TemplateText \<Rightarrow> 'd option \<Rightarrow> ('d, 'w, error, string) async" where
  "resolveText x d = (case templateText x d of Inl e \<Rightarrow> reject e | Inr s \<Rightarrow> resolve s)"

definition buildFromTemplate ::
  "('d, 'w) NotificationCenter \<Rightarrow> 'd NotificationInput \<Rightarrow> string \<Rightarrow> ('d, 'w, error, 'd Notification) async"
where
  "buildFromTemplate center input templateId =
     (case c_templates center templateId of
        None \<Rightarrow> reject (Error (''Template '' @ templateId @ '' not found''))
      | Some template \<Rightarrow>
          andThen (resolveText (t_title template) (i_data input)) (\<lambda>title.
          andThen (resolveText (t_body template) (i_data input)) (\<lambda>body.
          andThen (generateId center) (\<lambda>ident.
          andThen (readClock center) (\<lambda>createdAt.
          andThen (case i_expiresAt input of
                     Some d \<Rightarrow> resolve (Some d)
                   | None \<Rightarrow>
                       (case t_expiresIn template of
                          None \<Rightarrow> resolve None
                        | Some expiresIn \<Rightarrow>
                            if expiresIn \<noteq> 0
                            then andThen (readClock center) (\<lambda>now. resolve (Some (now + expiresIn)))
                            else resolve None)) (\<lambda>expiresAt.
          resolve
            \<lparr> n_id = ident,
              n_type = or_string (i_type input) (Some (t_type template)),
              n_title = or_string (i_title input) (Some title),
              n_body = or_string (i_body input) (Some body),
              n_data = i_data input,
              n_userId = i_userId input,
              n_groupId = i_groupId input,
              n_priority = (case i_priority input of Some p \<Rightarrow> p | None \<Rightarrow> t_priority template),
              n_category = or_string (i_category input) (t_category template),
              n_status = StPending,
              n_readAt = None,
              n_createdAt = createdAt,
              n_scheduledFor = i_scheduledFor input,
              n_expiresAt = expiresAt,
              n_channels = (if length (i_channels input) \<noteq> 0 then i_channels input
                            else t_channels template),
              n_actions = i_actions input \<rparr>))))))"

definition buildDirectly ::
  "('d, 'w) NotificationCenter \<Rightarrow> 'd NotificationInput \<Rightarrow> ('d, 'w, error, 'd Notification) async"
where
  "buildDirectly center input =
     andThen (generateId center) (\<lambda>ident.
     andThen (readClock center) (\<lambda>createdAt.
     resolve
       \<lparr> n_id = ident,
         n_type = i_type input,
         n_title = i_title input,
         n_body = i_body input,
         n_data = i_data input,
         n_userId = i_userId input,
         n_groupId = i_groupId input,
         n_priority = (case i_priority input of Some p \<Rightarrow> p | None \<Rightarrow> normal),
         n_category = i_category input,
         n_status = StPending,
         n_readAt = None,
         n_createdAt = createdAt,
         n_scheduledFor = i_scheduledFor input,
         n_expiresAt = i_expiresAt input,
         n_channels = i_channels input,
         n_actions = i_actions input \<rparr>))"

definition buildNotification ::
  "('d, 'w) NotificationCenter \<Rightarrow> 'd NotificationInput \<Rightarrow> ('d, 'w, error, 'd Notification) async"
where
  \<comment> \<open>\<open>if (input.template)\<close>: an absent or empty template id builds from the input alone\<close>
  "buildNotification center input =
     (case i_template input of
        None \<Rightarrow> buildDirectly center input
      | Some templateId \<Rightarrow>
          if templateId \<noteq> [] then buildFromTemplate center input templateId
          else buildDirectly center input)"

section \<open>Middleware pipeline\<close>

fun beforeSendLoop ::
  "('d, 'w) NotificationMiddleware list \<Rightarrow> 'd Notification \<Rightarrow>
   ('d, 'w, error, 'd Notification option) async"
where
  "beforeSendLoop [] current = resolve (Some current)"
| "beforeSendLoop (m # ms) current =
     (case m_beforeSend m of
        None \<Rightarrow> beforeSendLoop ms current
      | Some hook \<Rightarrow>
          andThen (invoke (BeforeSendCall (m_name m) current) (hook current)) (\<lambda>r.
            case r of
              None \<Rightarrow> resolve None
            | Some next \<Rightarrow> beforeSendLoop ms next))"

definition applyBeforeSendMiddleware ::
  "('d, 'w) NotificationCenter \<Rightarrow> 'd Notification \<Rightarrow> ('d, 'w, error, 'd Notification option) async"
where
  "applyBeforeSendMiddleware center notification =
     beforeSendLoop (c_middleware center) notification"

fun afterSendLoop ::
  "('d, 'w) NotificationMiddleware list \<Rightarrow> 'd Notification \<Rightarrow> ('d, 'w, error, unit) async"
where
  "afterSendLoop [] notification = resolve ()"
| "afterSendLoop (m # ms) notification =
     (case m_afterSend m of
        None \<Rightarrow> afterSendLoop ms notification
      | Some hook \<Rightarrow>
          andThen (invoke (AfterSendCall (m_name m) notification) (hook notification)) (\<lambda>_.
            afterSendLoop ms notification))"

definition applyAfterSendMiddleware ::
  "('d, 'w) NotificationCenter \<Rightarrow> 'd Notification \<Rightarrow> ('d, 'w, error, unit) async"
where
  "applyAfterSendMiddleware center notification =
     afterSendLoop (c_middleware center) notification"

fun errorLoop ::
  "('d, 'w) NotificationMiddleware list \<Rightarrow> error \<Rightarrow> 'd Notification \<Rightarrow> ('d, 'w, error, unit) async"
where
  "errorLoop [] err notification = resolve ()"
| "errorLoop (m # ms) err notification =
     (case m_onError m of
        None \<Rightarrow> errorLoop ms err notification
      | Some hook \<Rightarrow>
          andThen (invoke (OnErrorCall (m_name m) err notification) (hook err notification)) (\<lambda>_.
            errorLoop ms err notification))"

definition applyErrorMiddleware ::
  "('d, 'w) NotificationCenter \<Rightarrow> error \<Rightarrow> 'd Notification \<Rightarrow> ('d, 'w, error, unit) async"
where
  "applyErrorMiddleware center err notification =
     errorLoop (c_middleware center) err notification"

section \<open>Subscription hub: publishing\<close>

text \<open>
  \<open>subs.forEach(callback => callback(x))\<close>: the callbacks run in order; one that throws
  ends the loop and the exception goes up.
\<close>

fun forEachCallback ::
  "'d call \<Rightarrow> ('w, unit) collaborator list \<Rightarrow> ('d, 'w, error, unit) async"
where
  "forEachCallback c [] = resolve ()"
| "forEachCallback c (callback # rest) =
     andThen (invoke c callback) (\<lambda>_. forEachCallback c rest)"

definition notifySubscribers ::
  "('d, 'w) NotificationCenter \<Rightarrow> 'd Notification \<Rightarrow> ('d, 'w, error, unit) async"
where
  "notifySubscribers center notification =
     (case c_subscribers center (n_userId notification) of
        None \<Rightarrow> resolve ()
      | Some subs \<Rightarrow>
          forEachCallback (SubscriberCall (n_userId notification) notification)
            (map (\<lambda>callback. callback notification) subs))"

definition notifyEventSubscribers ::
  "('d, 'w) NotificationCenter \<Rightarrow> 'd NotificationEvent \<Rightarrow> ('d, 'w, error, unit) async"
where
  "notifyEventSubscribers center event =
     (case c_eventSubscribers center (n_userId (ev_notification event)) of
        None \<Rightarrow> resolve ()
      | Some subs \<Rightarrow>
          forEachCallback (EventSubscriberCall (n_userId (ev_notification event)) event)
            (map (\<lambda>callback. callback event) subs))"

definition notifyUnreadSubscribers ::
  "('d, 'w) NotificationCenter \<Rightarrow> string \<Rightarrow> nat \<Rightarrow> ('d, 'w, error, unit) async"
where
  "notifyUnreadSubscribers center userId count =
     (case c_unreadSubscribers center userId of
        None \<Rightarrow> resolve ()
      | Some subs \<Rightarrow>
          forEachCallback (UnreadSubscriberCall userId count)
            (map (\<lambda>callback. callback count userId) subs))"

section \<open>Delivery coordinator (sendNow)\<close>

text \<open>
  \<open>Promise.all\<close> over a mapped list: every operation runs to its end whether or not
  another one rejects; the result is the list of values, or the rejection of the first
  operation that rejected. The source starts every operation before any of them resumes
  after an \<open>await\<close>, interleaves them from there on, and rejects as soon as one of them
  rejects, while the others are still running. Here the operations run one after another
  in list order, and the first rejection is the first in that order. The two agree on
  every call when at most one operation calls a collaborator. When several do and all
  resolve, the values are in list order in both, and the calls of different operations
  come in another order in the source. When several do and one rejects, the source may
  reject with another error than the one chosen here, and goes on while the other
  operations are still calling: \<open>settlesInTurn\<close> below names the runs where this does
  not arise, and \<open>untilRejection\<close> and \<open>catchAmid\<close> follow the runs where it does.
\<close>

fun settleAll ::
  "('d, 'w, 'e, 'a) async list \<Rightarrow> ('d, 'w) state \<Rightarrow> ('e + 'a) list \<times> ('d, 'w) state"
where
  "settleAll [] s = ([], s)"
| "settleAll (m # ms) s =
     (case m s of (r, s') \<Rightarrow> (case settleAll ms s' of (rs, s'') \<Rightarrow> (r # rs, s'')))"

fun allResolved :: "('e + 'a) list \<Rightarrow> 'e + 'a list" where
  "allResolved [] = Inr []"
| "allResolved (Inl e # rs) = Inl e"
| "allResolved (Inr x # rs) = (case allResolved rs of Inl e \<Rightarrow> Inl e | Inr xs \<Rightarrow> Inr (x # xs))"

definition promiseAll :: "('d, 'w, 'e, 'a) async list \<Rightarrow> ('d, 'w, 'e, 'a list) async" where
  "promiseAll ms s = (case settleAll ms s of (rs, s') \<Rightarrow> (allResolved rs, s'))"

fun message :: "error \<Rightarrow> string" where
  "message (Error m) = m"

definition saveReceiptIfSupported ::
  "('d, 'w) NotificationCenter \<Rightarrow> DeliveryReceipt \<Rightarrow> ('d, 'w, error, unit) async"
where
  \<comment> \<open>\<open>if (this.storage.saveReceipt) await this.storage.saveReceipt(receipt)\<close>\<close>
  "saveReceiptIfSupported center receipt =
     (case st_saveReceipt (c_storage center) of
        None \<Rightarrow> resolve ()
      | Some saveReceipt \<Rightarrow> invoke (StorageSaveReceipt receipt) (saveReceipt receipt))"

text \<open>The function mapped over \<open>notification.channels\<close>: what one channel contributes.\<close>

definition deliverToChannel ::
  "('d, 'w) NotificationCenter \<Rightarrow> 'd Notification \<Rightarrow> NotificationPreferences \<Rightarrow> ChannelType \<Rightarrow>
   ('d, 'w, error, DeliveryReceipt option) async"
where
  "deliverToChannel center notification prefs channel =
     (case c_transports center channel of
        None \<Rightarrow> resolve None
      | Some transport \<Rightarrow>
          andThen (invoke (TransportCanSend channel notification)
                     (ta_canSend transport notification prefs)) (\<lambda>allowed.
            if \<not> allowed then resolve None
            else
              tryCatch
                (andThen (invoke (TransportSend channel notification)
                            (ta_send transport notification prefs)) (\<lambda>receipt.
                 andThen (saveReceiptIfSupported center receipt) (\<lambda>_.
                 resolve (Some receipt))))
                (\<lambda>err.
                 andThen (readClock center) (\<lambda>now.
                   let receipt =
                         \<lparr> r_notificationId = n_id notification,
                           r_channel = channel,
                           r_status = DsFailed,
                           r_attempts = 1,
                           r_lastAttempt = now,
                           r_nextRetry = None,
                           r_error = Some (message err) \<rparr>
                   in andThen (saveReceiptIfSupported center receipt) (\<lambda>_.
                      resolve (Some receipt))))))"

definition allFailed :: "DeliveryReceipt option list \<Rightarrow> bool" where
  \<comment> \<open>\<open>receipts.every(r => !r || r.status === 'failed')\<close>\<close>
  "allFailed receipts =
     list_all (\<lambda>r. case r of None \<Rightarrow> True | Some x \<Rightarrow> r_status x = DsFailed) receipts"

definition anyDelivered :: "DeliveryReceipt option list \<Rightarrow> bool" where
  \<comment> \<open>\<open>receipts.some(r => r && r.status === 'delivered')\<close>\<close>
  "anyDelivered receipts =
     list_ex (\<lambda>r. case r of None \<Rightarrow> False | Some x \<Rightarrow> r_status x = DsDelivered) receipts"

definition sendNow ::
  "('d, 'w) NotificationCenter \<Rightarrow> 'd Notification \<Rightarrow>
   ('d, 'w, error \<times> 'd Notification, 'd Notification) async"
where
  "sendNow center notification =
     andThen (holding notification
                (invoke (StorageGetPreferences (n_userId notification))
                   (st_getPreferences (c_storage center) (n_userId notification)))) (\<lambda>prefs.
     andThen (holding notification
                (promiseAll (map (deliverToChannel center notification prefs)
                               (n_channels notification)))) (\<lambda>receipts.
       let updated = notification
             \<lparr> n_status := (if allFailed receipts then StFailed
                             else if anyDelivered receipts then StDelivered else StSent) \<rparr>
       in andThen (holding updated (invoke (StorageSave updated) (st_save (c_storage center) updated)))
            (\<lambda>_. resolve updated)))"

section \<open>Dispatch engine (send)\<close>

text \<open>
  \<open>dispatch\<close> is the \<open>try\<close> block of \<open>send\<close>: enqueue or deliver, the post-dispatch
  hooks, publication. It resolves with the notification \<open>send\<close> returns.
\<close>

definition enqueueOrSend ::
  "('d, 'w) NotificationCenter \<Rightarrow> 'd Notification \<Rightarrow>
   ('d, 'w, error \<times> 'd Notification, 'd Notification) async"
where
  "enqueueOrSend center notification =
     (case c_queue center of
        Some queue \<Rightarrow>
          holding notification
            (case n_scheduledFor notification of
               Some scheduledFor \<Rightarrow>
                 andThen (readClock center) (\<lambda>now.
                 andThen (invoke (QueueEnqueueDelayed notification (scheduledFor - now))
                            (qa_enqueueDelayed queue notification (scheduledFor - now))) (\<lambda>_.
                 resolve notification))
             | None \<Rightarrow>
                 andThen (invoke (QueueEnqueue notification) (qa_enqueue queue notification)) (\<lambda>_.
                 resolve notification))
      | None \<Rightarrow> sendNow center notification)"

definition dispatch ::
  "('d, 'w) NotificationCenter \<Rightarrow> 'd Notification \<Rightarrow>
   ('d, 'w, error \<times> 'd Notification, 'd Notification) async"
where
  "dispatch center notification =
     andThen (enqueueOrSend center notification) (\<lambda>notification.
     holding notification
       (andThen (applyAfterSendMiddleware center notification) (\<lambda>_.
        andThen (notifySubscribers center notification) (\<lambda>_.
        andThen (readClock center) (\<lambda>now.
        andThen (notifyEventSubscribers center
                   \<lparr> ev_type = EvSent, ev_notification = notification, ev_timestamp = now \<rparr>) (\<lambda>_.
        resolve notification))))))"

definition filteredError :: error where
  "filteredError = Error ''Notification was filtered out by middleware''"

definition send ::
  "('d, 'w) NotificationCenter \<Rightarrow> 'd NotificationInput \<Rightarrow> ('d, 'w, error, 'd Notification) async"
where
  "send center input =
     andThen (buildNotification center input) (\<lambda>built.
     andThen (applyBeforeSendMiddleware center built) (\<lambda>filtered.
       case filtered of
         None \<Rightarrow> reject filteredError
       | Some notification \<Rightarrow>
           andThen (invoke (StorageSave notification) (st_save (c_storage center) notification)) (\<lambda>_.
           tryCatch (dispatch center notification)
             (\<lambda>(err, notification).
                andThen (applyErrorMiddleware center err notification) (\<lambda>_.
                reject err)))))"


section \<open>Channel operations running at the same time\<close>

text \<open>
  When several channel operations of one delivery call collaborators, the source does
  not run them one after another. \<open>map\<close> starts each of them in list order, up to its
  first \<open>await\<close>; from then on, whichever operation's awaited call has settled goes on,
  in an order that depends on when the collaborators settle. \<open>Promise.all\<close> rejects
  with the first rejection in that order of time and does not wait for the operations
  still running: they go on while \<open>send\<close> handles the error.

  Here an operation is followed from one \<open>await\<close> to the next. A phase says which call
  the operation is waiting for and what that call settles with: a collaborator acts on
  the world when it is called, and an awaited call settles after all the operations have
  been started. \<open>startChannel\<close> is the function mapped over the channels, up to its
  first \<open>await\<close>; \<open>catchOfChannel\<close> is its \<open>catch\<close> block, up to the \<open>await\<close> in
  it; \<open>resumeChannel\<close> takes an operation from one \<open>await\<close> to the next, or to its
  end.
\<close>

datatype phase =
    AwaitingSend "error + DeliveryReceipt"
  | AwaitingSave DeliveryReceipt "error + unit"
  | AwaitingFailedSave DeliveryReceipt "error + unit"
  | Settled "error + DeliveryReceipt option"

definition startChannel ::
  "('d, 'w) NotificationCenter \<Rightarrow> 'd Notification \<Rightarrow> NotificationPreferences \<Rightarrow> ChannelType \<Rightarrow>
   ('d, 'w) state \<Rightarrow> phase \<times> ('d, 'w) state"
where
  "startChannel center notification prefs channel s =
     (case c_transports center channel of
        None \<Rightarrow> (Settled (Inr None), s)
      | Some transport \<Rightarrow>
          (case invoke (TransportCanSend channel notification)
                  (ta_canSend transport notification prefs) s of
             (Inl e, s1) \<Rightarrow> (Settled (Inl e), s1)
           | (Inr allowed, s1) \<Rightarrow>
               if \<not> allowed then (Settled (Inr None), s1)
               else (case invoke (TransportSend channel notification)
                            (ta_send transport notification prefs) s1 of
                       (r, s2) \<Rightarrow> (AwaitingSend r, s2))))"

definition catchOfChannel ::
  "('d, 'w) NotificationCenter \<Rightarrow> 'd Notification \<Rightarrow> ChannelType \<Rightarrow> error \<Rightarrow>
   ('d, 'w) state \<Rightarrow> phase \<times> ('d, 'w) state"
where
  "catchOfChannel center notification channel err s =
     (case Date_now center (snd s) of
        (now, w1) \<Rightarrow>
          let receipt =
                \<lparr> r_notificationId = n_id notification,
                  r_channel = channel,
                  r_status = DsFailed,
                  r_attempts = 1,
                  r_lastAttempt = now,
                  r_nextRetry = None,
                  r_error = Some (message err) \<rparr>
          in (case st_saveReceipt (c_storage center) of
                None \<Rightarrow> (Settled (Inr (Some receipt)), (fst s, w1))
              | Some saveReceipt \<Rightarrow>
                  (case invoke (StorageSaveReceipt receipt) (saveReceipt receipt) (fst s, w1) of
                     (r, s2) \<Rightarrow> (AwaitingFailedSave receipt r, s2))))"

fun resumeChannel ::
  "('d, 'w) NotificationCenter \<Rightarrow> 'd Notification \<Rightarrow> ChannelType \<Rightarrow> phase \<Rightarrow>
   ('d, 'w) state \<Rightarrow> phase \<times> ('d, 'w) state"
where
  "resumeChannel center notification channel (AwaitingSend (Inr receipt)) s =
     (case st_saveReceipt (c_storage center) of
        None \<Rightarrow> (Settled (Inr (Some receipt)), s)
      | Some saveReceipt \<Rightarrow>
          (case invoke (StorageSaveReceipt receipt) (saveReceipt receipt) s of
             (r, s1) \<Rightarrow> (AwaitingSave receipt r, s1)))"
| "resumeChannel center notification channel (AwaitingSend (Inl err)) s =
     catchOfChannel center notification channel err s"
| "resumeChannel center notification channel (AwaitingSave receipt (Inr u)) s =
     (Settled (Inr (Some receipt)), s)"
| "resumeChannel center notification channel (AwaitingSave receipt (Inl err)) s =
     catchOfChannel center notification channel err s"
| "resumeChannel center notification channel (AwaitingFailedSave receipt (Inr u)) s =
     (Settled (Inr (Some receipt)), s)"
| "resumeChannel center notification channel (AwaitingFailedSave receipt (Inl err)) s =
     (Settled (Inl err), s)"
| "resumeChannel center notification channel (Settled r) s = (Settled r, s)"


text \<open>
  \<open>resumeAt i\<close> lets the operation of the \<open>i\<close>-th channel go on to its next \<open>await\<close>
  (nothing happens when it has settled, or when there is no such channel). An order of
  time is a list of such positions. \<open>untilRejection\<close> follows the started operations in
  a given order until one of them has rejected, which is when \<open>Promise.all\<close> rejects:
  with the first rejected operation in list order right after the start
  (\<open>Promise.all\<close> subscribes to the operations in that order), and later with the one
  that has just rejected. It yields nothing when the order ends before any operation has
  rejected.
\<close>

definition resumeAt ::
  "('d, 'w) NotificationCenter \<Rightarrow> 'd Notification \<Rightarrow> nat \<Rightarrow>
   (ChannelType \<times> phase) list \<times> ('d, 'w) state \<Rightarrow> (ChannelType \<times> phase) list \<times> ('d, 'w) state"
where
  "resumeAt center notification i c =
     (if i < length (fst c)
      then (case fst c ! i of
              (channel, p) \<Rightarrow>
                (case resumeChannel center notification channel p (snd c) of
                   (p', s') \<Rightarrow> ((fst c)[i := (channel, p')], s')))
      else c)"



text \<open>
  The \<open>catch\<close> block of \<open>send\<close>, entered from a rejected \<open>Promise.all\<close> with
  operations still running. While \<open>send\<close> waits, first for the rejection to reach it
  and then for each hook it has called, the operations named in the next gap go on.
  \<open>catchAmid\<close> is what \<open>send\<close> settles with.
\<close>

definition meanwhile ::
  "('d, 'w) NotificationCenter \<Rightarrow> 'd Notification \<Rightarrow> nat list list \<Rightarrow>
   (ChannelType \<times> phase) list \<times> ('d, 'w) state \<Rightarrow> (ChannelType \<times> phase) list \<times> ('d, 'w) state"
where
  "meanwhile center notification gaps c =
     (case gaps of [] \<Rightarrow> c | gap # later \<Rightarrow> fold (resumeAt center notification) gap c)"

fun errorLoopAmid ::
  "('d, 'w) NotificationCenter \<Rightarrow> nat list list \<Rightarrow> ('d, 'w) NotificationMiddleware list \<Rightarrow>
   error \<Rightarrow> 'd Notification \<Rightarrow> (ChannelType \<times> phase) list \<times> ('d, 'w) state \<Rightarrow>
   (error + unit) \<times> (ChannelType \<times> phase) list \<times> ('d, 'w) state"
where
  "errorLoopAmid center gaps [] err notification c = (Inr (), c)"
| "errorLoopAmid center gaps (m # ms) err notification c =
     (case m_onError m of
        None \<Rightarrow> errorLoopAmid center gaps ms err notification c
      | Some hook \<Rightarrow>
          (case invoke (OnErrorCall (m_name m) err notification) (hook err notification) (snd c) of
             (r, s1) \<Rightarrow>
               (case r of
                  Inl e' \<Rightarrow> (Inl e', meanwhile center notification gaps (fst c, s1))
                | Inr u \<Rightarrow>
                    errorLoopAmid center (tl gaps) ms err notification
                      (meanwhile center notification gaps (fst c, s1)))))"

definition catchAmid ::
  "('d, 'w) NotificationCenter \<Rightarrow> nat list list \<Rightarrow> error \<Rightarrow> 'd Notification \<Rightarrow>
   (ChannelType \<times> phase) list \<times> ('d, 'w) state \<Rightarrow> (error + 'd Notification) \<times> ('d, 'w) state"
where
  "catchAmid center gaps err notification c =
     (case errorLoopAmid center (tl gaps) (c_middleware center) err notification
             (meanwhile center notification gaps c) of
        (Inl e', c1) \<Rightarrow> (Inl e', snd c1)
      | (Inr u, c1) \<Rightarrow> (Inl err, snd c1))"

section \<open>Delivery status and retry (getDeliveryStatus, retryFailed)\<close>

definition getDeliveryStatus ::
  "('d, 'w) NotificationCenter \<Rightarrow> string \<Rightarrow> ('d, 'w, error, DeliveryReceipt list) async"
where
  "getDeliveryStatus center notificationId =
     (case st_getReceipts (c_storage center) of
        None \<Rightarrow> resolve []
      | Some getReceipts \<Rightarrow> invoke (StorageGetReceipts notificationId) (getReceipts notificationId))"

fun retryLoop ::
  "('d, 'w) NotificationCenter \<Rightarrow> 'd Notification \<Rightarrow> DeliveryReceipt list \<Rightarrow>
   ('d, 'w, error, unit) async"
where
  "retryLoop center notification [] = resolve ()"
| "retryLoop center notification (receipt # rest) =
     (case c_transports center (r_channel receipt) of
        None \<Rightarrow> retryLoop center notification rest
      | Some transport \<Rightarrow>
          andThen (invoke (StorageGetPreferences (n_userId notification))
                     (st_getPreferences (c_storage center) (n_userId notification))) (\<lambda>prefs.
          andThen (invoke (TransportSend (r_channel receipt) notification)
                     (ta_send transport notification prefs)) (\<lambda>_.
          retryLoop center notification rest)))"

definition failedReceipts :: "ChannelType option \<Rightarrow> DeliveryReceipt list \<Rightarrow> DeliveryReceipt list" where
  \<comment> \<open>\<open>receipts.filter(r => r.status === 'failed' && (!channel || r.channel === channel))\<close>\<close>
  "failedReceipts channel receipts =
     filter (\<lambda>r. r_status r = DsFailed \<and> (channel = None \<or> Some (r_channel r) = channel)) receipts"

definition notFoundError :: "string \<Rightarrow> error" where
  "notFoundError notificationId = Error (''Notification '' @ notificationId @ '' not found'')"

definition retryFailed ::
  "('d, 'w) NotificationCenter \<Rightarrow> string \<Rightarrow> ChannelType option \<Rightarrow> ('d, 'w, error, unit) async"
where
  "retryFailed center notificationId channel =
     andThen (invoke (StorageFindById notificationId)
                (st_findById (c_storage center) notificationId)) (\<lambda>found.
       case found of
         None \<Rightarrow> reject (notFoundError notificationId)
       | Some notification \<Rightarrow>
           andThen (getDeliveryStatus center notificationId) (\<lambda>receipts.
           retryLoop center notification (failedReceipts channel receipts)))"

text \<open>
  What one turn of the loop of \<open>retryFailed\<close> leaves of the world when nothing throws:
  the preferences are loaded, then the transport of the receipt's channel sends; a
  receipt whose channel has no transport is passed over.
\<close>

definition retryOnce ::
  "('d, 'w) NotificationCenter \<Rightarrow> 'd Notification \<Rightarrow> 'w \<Rightarrow> DeliveryReceipt \<Rightarrow> 'w"
where
  "retryOnce center notification w receipt =
     (case c_transports center (r_channel receipt) of
        None \<Rightarrow> w
      | Some transport \<Rightarrow>
          (case st_getPreferences (c_storage center) (n_userId notification) w of
             (Inl e, w1) \<Rightarrow> w1
           | (Inr prefs, w1) \<Rightarrow> snd (ta_send transport notification prefs w1)))"

section \<open>Deleting (delete)\<close>

definition delete :: "('d, 'w) NotificationCenter \<Rightarrow> string \<Rightarrow> ('d, 'w, error, unit) async" where
  "delete center notificationId =
     andThen (invoke (StorageFindById notificationId)
                (st_findById (c_storage center) notificationId)) (\<lambda>found.
     andThen (invoke (StorageDelete notificationId)
                (st_delete (c_storage center) notificationId)) (\<lambda>_.
       case found of
         None \<Rightarrow> resolve ()
       | Some notification \<Rightarrow>
           if n_status notification \<noteq> StRead
           then andThen (invoke (StorageCountUnread (n_userId notification))
                           (st_countUnread (c_storage center) (n_userId notification))) (\<lambda>count.
                notifyUnreadSubscribers center (n_userId notification) count)
           else resolve ()))"

section \<open>Reading the record of calls\<close>

fun isBeforeSendCall :: "'d call \<Rightarrow> bool" where
  "isBeforeSendCall (BeforeSendCall name n) = True"
| "isBeforeSendCall c = False"


fun isTransportSend :: "'d call \<Rightarrow> bool" where
  "isTransportSend (TransportSend channel n) = True"
| "isTransportSend c = False"



text \<open>The notification a call hands to a queue or to a transport's \<open>send\<close>, by its id.\<close>

fun dispatchTarget :: "'d call \<Rightarrow> string option" where
  "dispatchTarget (QueueEnqueue n) = Some (n_id n)"
| "dispatchTarget (QueueEnqueueDelayed n delay) = Some (n_id n)"
| "dispatchTarget (TransportSend channel n) = Some (n_id n)"
| "dispatchTarget c = None"

text \<open>
  \<open>dispatchesFollowSave saved calls\<close>: reading the calls in order, every enqueue and
  every transport send is for a notification whose id is in \<open>saved\<close> or was passed to
  \<open>storage.save\<close> by an earlier call of the list.
\<close>

fun dispatchesFollowSave :: "string set \<Rightarrow> 'd call list \<Rightarrow> bool" where
  "dispatchesFollowSave saved [] = True"
| "dispatchesFollowSave saved (StorageSave n # calls) =
     dispatchesFollowSave (insert (n_id n) saved) calls"
| "dispatchesFollowSave saved (c # calls) =
     ((case dispatchTarget c of None \<Rightarrow> True | Some ident \<Rightarrow> ident \<in> saved)
      \<and> dispatchesFollowSave saved calls)"

text \<open>
  \<open>emits A m\<close>: whatever state \<open>m\<close> starts in, it leaves the calls recorded so far in
  place and adds only calls that satisfy \<open>A\<close>.
\<close>

definition emits :: "('d call \<Rightarrow> bool) \<Rightarrow> (('d, 'w) state \<Rightarrow> 'r \<times> ('d, 'w) state) \<Rightarrow> bool" where
  "emits A m = (\<forall>s. \<exists>calls. fst (snd (m s)) = fst s @ calls \<and> list_all A calls)"

section \<open>The in-memory adapters of the repository\<close>

text \<open>
  The world of the in-memory adapters: the three maps of \<open>MemoryStorageAdapter\<close>, the
  two arrays of \<open>MemoryQueueAdapter\<close>, and what the clock and the random generator give.
  A \<open>Map\<close> is an association list in insertion order. The adapters keep references to
  the objects they are given, so what the engine writes to a notification afterwards
  (its status, in \<open>sendNow\<close>) shows in the store at once; here they keep the contents
  as passed, and the new status shows with the \<open>save\<close> that follows the write. These
  adapters' own \<open>save\<close> does not throw, so the two agree whenever a collaborator is
  called; a store put together from them whose \<open>save\<close> throws after the write would,
  in the source, already show the new status.
\<close>

record 'd MemoryWorld =
  w_notifications :: "(string \<times> 'd Notification) list"
  w_preferences :: "(string \<times> NotificationPreferences) list"
  w_receipts :: "(string \<times> DeliveryReceipt list) list"
  w_queue :: "'d Notification list"
  w_delayedQueue :: "('d Notification \<times> int) list"
  w_clock :: int
  w_hour :: nat
  w_random :: string

fun mapSet :: "'k \<Rightarrow> 'v \<Rightarrow> ('k \<times> 'v) list \<Rightarrow> ('k \<times> 'v) list" where
  "mapSet k v [] = [(k, v)]"
| "mapSet k v ((k', v') # rest) = (if k' = k then (k, v) # rest else (k', v') # mapSet k v rest)"

definition mapDelete :: "'k \<Rightarrow> ('k \<times> 'v) list \<Rightarrow> ('k \<times> 'v) list" where
  "mapDelete k m = filter (\<lambda>kv. fst kv \<noteq> k) m"

definition defaultPreferences :: "string \<Rightarrow> NotificationPreferences" where
  "defaultPreferences userId =
     \<lparr> p_userId = userId, p_channels = (\<lambda>_. None), p_globalMute = Some False \<rparr>"

definition memoryStorage :: "('d, 'd MemoryWorld) StorageAdapter" where
  "memoryStorage =
     \<lparr> st_save = (\<lambda>notification w.
         (Inr (), w\<lparr> w_notifications := mapSet (n_id notification) notification (w_notifications w) \<rparr>)),
       st_findById = (\<lambda>ident w. (Inr (map_of (w_notifications w) ident), w)),
       st_countUnread = (\<lambda>userId w.
         (Inr (length (filter (\<lambda>n. n_userId n = userId \<and> n_status n \<noteq> StRead)
                         (map snd (w_notifications w)))), w)),
       st_delete = (\<lambda>ident w.
         (Inr (), w\<lparr> w_notifications := mapDelete ident (w_notifications w),
                      w_receipts := mapDelete ident (w_receipts w) \<rparr>)),
       st_getPreferences = (\<lambda>userId w.
         (Inr (case map_of (w_preferences w) userId of
                 Some prefs \<Rightarrow> prefs
               | None \<Rightarrow> defaultPreferences userId), w)),
       st_saveReceipt = Some (\<lambda>receipt w.
         (Inr (), w\<lparr> w_receipts :=
              mapSet (r_notificationId receipt)
                ((case map_of (w_receipts w) (r_notificationId receipt) of
                    Some existing \<Rightarrow> existing
                  | None \<Rightarrow> []) @ [receipt])
                (w_receipts w) \<rparr>)),
       st_getReceipts = Some (\<lambda>ident w.
         (Inr (case map_of (w_receipts w) ident of Some rs \<Rightarrow> rs | None \<Rightarrow> []), w)) \<rparr>"

definition memoryQueue :: "('d, 'd MemoryWorld) QueueAdapter" where
  "memoryQueue =
     \<lparr> qa_enqueue = (\<lambda>notification w. (Inr (), w\<lparr> w_queue := w_queue w @ [notification] \<rparr>)),
       qa_enqueueDelayed = (\<lambda>notification delay w.
         (Inr (), w\<lparr> w_delayedQueue := w_delayedQueue w @ [(notification, w_clock w + delay)] \<rparr>)) \<rparr>"

text \<open>
  \<open>ConsoleTransportAdapter\<close>: \<open>send\<close> reports a delivered receipt, \<open>canSend\<close> is the
  preference gate at the local hour.
\<close>

definition consoleTransport :: "ChannelType \<Rightarrow> ('d, 'd MemoryWorld) TransportAdapter" where
  "consoleTransport name =
     \<lparr> ta_name = name,
       ta_send = (\<lambda>notification prefs w.
         (Inr \<lparr> r_notificationId = n_id notification, r_channel = name, r_status = DsDelivered,
                r_attempts = 1, r_lastAttempt = w_clock w, r_nextRetry = None,
                r_error = None \<rparr>, w)),
       ta_canSend = (\<lambda>notification prefs w.
         (Inr (canSend NumberOfDigits name notification prefs (w_hour w)), w)) \<rparr>"

text \<open>
  Transports for the scenarios below: one whose \<open>send\<close> reports a given status, one whose
  \<open>send\<close> throws. Both always allow sending.
\<close>

definition reportingTransport ::
  "ChannelType \<Rightarrow> DeliveryStatus \<Rightarrow> ('d, 'd MemoryWorld) TransportAdapter"
where
  "reportingTransport name status =
     \<lparr> ta_name = name,
       ta_send = (\<lambda>notification prefs w.
         (Inr \<lparr> r_notificationId = n_id notification, r_channel = name, r_status = status,
                r_attempts = 1, r_lastAttempt = w_clock w, r_nextRetry = None,
                r_error = None \<rparr>, w)),
       ta_canSend = (\<lambda>notification prefs w. (Inr True, w)) \<rparr>"

definition throwingTransport :: "ChannelType \<Rightarrow> string \<Rightarrow> ('d, 'd MemoryWorld) TransportAdapter" where
  "throwingTransport name msg =
     \<lparr> ta_name = name,
       ta_send = (\<lambda>notification prefs w. (Inl (Error msg), w)),
       ta_canSend = (\<lambda>notification prefs w. (Inr True, w)) \<rparr>"

definition memoryCenter ::
  "('d, 'd MemoryWorld) TransportAdapter list \<Rightarrow> ('d, 'd MemoryWorld) NotificationCenter"
where
  \<comment> \<open>\<open>new NotificationCenter({ storage: new MemoryStorageAdapter(), transports })\<close>\<close>
  "memoryCenter transports =
     \<lparr> c_storage = memoryStorage,
       c_transports = transportsMap transports,
       c_queue = None,
       c_templates = (\<lambda>_. None),
       c_middleware = [],
       c_subscribers = (\<lambda>_. None),
       c_eventSubscribers = (\<lambda>_. None),
       c_unreadSubscribers = (\<lambda>_. None),
       Date_now = (\<lambda>w. (w_clock w, w)),
       Math_random = (\<lambda>w. (w_random w, w)) \<rparr>"

definition emptyWorld :: "'d MemoryWorld" where
  "emptyWorld =
     \<lparr> w_notifications = [], w_preferences = [], w_receipts = [], w_queue = [],
       w_delayedQueue = [], w_clock = 1700000000000, w_hour = 10, w_random = ''k3x9q2a7b'' \<rparr>"

definition sampleNotification :: "ChannelType list \<Rightarrow> (string \<times> string) list Notification" where
  "sampleNotification channels =
     \<lparr> n_id = ''notif_1700000000000_k3x9q2a7b'', n_type = Some ''system'', n_title = Some ''Hello'',
       n_body = Some ''A message'', n_data = None, n_userId = ''u1'', n_groupId = None,
       n_priority = normal, n_category = None, n_status = StPending, n_readAt = None,
       n_createdAt = 1700000000000, n_scheduledFor = None, n_expiresAt = None,
       n_channels = channels, n_actions = None \<rparr>"

definition sampleInput :: "ChannelType list \<Rightarrow> (string \<times> string) list NotificationInput" where
  "sampleInput channels =
     \<lparr> i_type = Some ''system'', i_title = Some ''Hello'', i_body = Some ''A message'',
       i_userId = ''u1'', i_groupId = None, i_data = None, i_priority = None,
       i_category = None, i_channels = channels, i_scheduledFor = None, i_expiresAt = None,
       i_actions = None, i_template = None \<rparr>"

definition billingOnly :: NotificationPreferences where
  \<comment> \<open>in-app notifications enabled, restricted to the category billing\<close>
  "billingOnly =
     \<lparr> p_userId = ''u1'',
       p_channels = (\<lambda>ch. if ch = inapp
                          then Some \<lparr> cp_enabled = True, cp_categories = Some [''billing''],
                                      cp_quietHours = None \<rparr>
                          else None),
       p_globalMute = Some False \<rparr>"

definition overnight :: NotificationPreferences where
  \<comment> \<open>in-app notifications enabled, quiet from 22:00 to 06:00\<close>
  "overnight =
     \<lparr> p_userId = ''u1'',
       p_channels = (\<lambda>ch. if ch = inapp
                          then Some \<lparr> cp_enabled = True, cp_categories = None,
                                      cp_quietHours = Some \<lparr> q_start = ''22:00'', q_end = ''06:00'',
                                                             q_timezone = None \<rparr> \<rparr>
                          else None),
       p_globalMute = Some False \<rparr>"

section \<open>Scenarios\<close>

definition raisePriority :: "('d, 'w) NotificationMiddleware" where
  \<comment> \<open>a \<open>beforeSend\<close> hook that transforms the notification\<close>
  "raisePriority =
     \<lparr> m_name = ''raise-priority'',
       m_beforeSend = Some (\<lambda>n w. (Inr (Some (n\<lparr> n_priority := high \<rparr>)), w)),
       m_afterSend = None,
       m_onError = None \<rparr>"

definition undeliverableCenter ::
  "((string \<times> string) list, (string \<times> string) list MemoryWorld) NotificationCenter"
where
  \<comment> \<open>a \<open>beforeSend\<close> hook that transforms, and a transport whose \<open>send\<close> throws\<close>
  "undeliverableCenter =
     (memoryCenter [throwingTransport inapp ''socket closed''])\<lparr> c_middleware := [raisePriority] \<rparr>"



definition failedEmailReceipt :: DeliveryReceipt where
  "failedEmailReceipt =
     \<lparr> r_notificationId = ''notif_1700000000000_k3x9q2a7b'', r_channel = email,
       r_status = DsFailed, r_attempts = 1, r_lastAttempt = 1700000000000, r_nextRetry = None,
       r_error = Some ''mailbox full'' \<rparr>"

definition deliveredEmailReceipt :: DeliveryReceipt where
  "deliveredEmailReceipt =
     \<lparr> r_notificationId = ''notif_1700000000000_k3x9q2a7b'', r_channel = email,
       r_status = DsDelivered, r_attempts = 1, r_lastAttempt = 1700000005000, r_nextRetry = None,
       r_error = None \<rparr>"

definition retryWorld :: "(string \<times> string) list MemoryWorld" where
  "retryWorld =
     emptyWorld
       \<lparr> w_notifications := [(''notif_1700000000000_k3x9q2a7b'', sampleNotification [email])],
         w_receipts := [(''notif_1700000000000_k3x9q2a7b'',
                         [failedEmailReceipt, deliveredEmailReceipt])] \<rparr>"

definition emailCenter ::
  "((string \<times> string) list, (string \<times> string) list MemoryWorld) NotificationCenter"
where
  "emailCenter = memoryCenter [reportingTransport email DsDelivered]"








definition welcomeTemplate :: "(string \<times> string) list NotificationTemplate" where
  \<comment> \<open>\<open>title: (d) => "Welcome " + d.name\<close>; reading \<open>d.name\<close> of an absent \<open>d\<close> throws\<close>
  "welcomeTemplate =
     \<lparr> t_id = ''welcome'', t_type = ''onboarding'',
       t_title = Computed (\<lambda>d. case d of
                    None \<Rightarrow> Inl (Error ''Cannot read properties of undefined'')
                  | Some payload \<Rightarrow>
                      Inr (''Welcome '' @ (case map_of payload ''name'' of
                                            Some v \<Rightarrow> v | None \<Rightarrow> ''undefined''))),
       t_body = Literal ''Thanks for joining'',
       t_channels = [inapp, email],
       t_priority = normal,
       t_category = Some ''account'',
       t_expiresIn = Some 86400000 \<rparr>"

definition welcomeCenter ::
  "((string \<times> string) list, (string \<times> string) list MemoryWorld) NotificationCenter"
where
  "welcomeCenter =
     (memoryCenter [consoleTransport inapp, consoleTransport email])
       \<lparr> c_templates := (\<lambda>ident. if ident = ''welcome'' then Some welcomeTemplate else None) \<rparr>"

definition welcomeInput :: "(string \<times> string) list NotificationInput" where
  \<comment> \<open>\<open>{template: "welcome", userId: "u1", data: {name: "Ann"}, channels: []}\<close>\<close>
  "welcomeInput =
     \<lparr> i_type = None, i_title = None, i_body = None, i_userId = ''u1'', i_groupId = None,
       i_data = Some [(''name'', ''Ann'')], i_priority = None, i_category = None,
       i_channels = [], i_scheduledFor = None, i_expiresAt = None, i_actions = None,
       i_template = Some ''welcome'' \<rparr>"


definition twiceFailedWorld :: "(string \<times> string) list MemoryWorld" where
  "twiceFailedWorld =
     emptyWorld
       \<lparr> w_notifications := [(''notif_1700000000000_k3x9q2a7b'', sampleNotification [email, sms])],
         w_receipts := [(''notif_1700000000000_k3x9q2a7b'',
                         [failedEmailReceipt, failedEmailReceipt \<lparr> r_channel := sms \<rparr>])] \<rparr>"

definition stillFailingCenter ::
  "((string \<times> string) list, (string \<times> string) list MemoryWorld) NotificationCenter"
where
  "stillFailingCenter =
     memoryCenter [throwingTransport email ''mailbox full'', reportingTransport sms DsDelivered]"














section \<open>Rules for the record of calls\<close>

lemmas engine_defs = send_def buildNotification_def buildDirectly_def buildFromTemplate_def
  generateId_def resolveText_def templateText_def applyBeforeSendMiddleware_def
  applyAfterSendMiddleware_def applyErrorMiddleware_def notifySubscribers_def
  notifyEventSubscribers_def notifyUnreadSubscribers_def dispatch_def enqueueOrSend_def
  sendNow_def promiseAll_def deliverToChannel_def saveReceiptIfSupported_def allFailed_def
  anyDelivered_def retryFailed_def getDeliveryStatus_def failedReceipts_def delete_def
  decimalInt_def decimalNat.simps digitChar_def decimalDigits_def or_string_def
  truthy_string_def filteredError_def notFoundError_def Let_def

lemmas memory_defs = memoryCenter_def memoryStorage_def memoryQueue_def emptyWorld_def
  reportingTransport_def throwingTransport_def consoleTransport_def defaultPreferences_def
  mapDelete_def sampleInput_def sampleNotification_def

lemmas async_defs = andThen_def resolve_def reject_def tryCatch_def invoke_def readClock_def
  readRandom_def holding_def

lemma emitsI: "(\<And>s. \<exists>calls. fst (snd (m s)) = fst s @ calls \<and> list_all A calls) \<Longrightarrow> emits A m"
  by (simp add: emits_def)

lemma emitsD: "emits A m \<Longrightarrow> m s = (r, s') \<Longrightarrow> \<exists>calls. fst s' = fst s @ calls \<and> list_all A calls"
  unfolding emits_def by (metis snd_conv)

lemma emits_mono: "emits A m \<Longrightarrow> (\<And>c. A c \<Longrightarrow> B c) \<Longrightarrow> emits B m"
  unfolding emits_def list_all_iff by metis

lemma emits_resolve: "emits A (resolve x)"
  by (simp add: emits_def resolve_def)

lemma emits_reject: "emits A (reject e)"
  by (simp add: emits_def reject_def)

lemma emits_invoke: "A c \<Longrightarrow> emits A (invoke c f)"
  by (simp add: emits_def invoke_def split: prod.splits)

lemma emits_readClock: "emits A (readClock center)"
  by (simp add: emits_def readClock_def split: prod.splits)

lemma emits_readRandom: "emits A (readRandom center)"
  by (simp add: emits_def readRandom_def split: prod.splits)

lemma emits_andThen:
  assumes "emits A m" and "\<And>x. emits A (f x)"
  shows "emits A (andThen m f)"
proof (rule emitsI)
  fix s
  obtain r s1 where m: "m s = (r, s1)" by (cases "m s")
  from emitsD [OF assms(1) m] obtain c1 where c1: "fst s1 = fst s @ c1" "list_all A c1" by blast
  show "\<exists>calls. fst (snd (andThen m f s)) = fst s @ calls \<and> list_all A calls"
  proof (cases r)
    case (Inl e)
    then show ?thesis using m c1 by (simp add: andThen_def)
  next
    case (Inr x)
    obtain r2 s2 where f: "f x s1 = (r2, s2)" by (cases "f x s1")
    from emitsD [OF assms(2) f] obtain c2 where c2: "fst s2 = fst s1 @ c2" "list_all A c2" by blast
    have "fst (snd (andThen m f s)) = fst s @ (c1 @ c2)"
      using m Inr f c1 c2 by (simp add: andThen_def)
    moreover have "list_all A (c1 @ c2)" using c1 c2 by simp
    ultimately show ?thesis by blast
  qed
qed

lemma emits_tryCatch:
  assumes "emits A m" and "\<And>e. emits A (h e)"
  shows "emits A (tryCatch m h)"
proof (rule emitsI)
  fix s
  obtain r s1 where m: "m s = (r, s1)" by (cases "m s")
  from emitsD [OF assms(1) m] obtain c1 where c1: "fst s1 = fst s @ c1" "list_all A c1" by blast
  show "\<exists>calls. fst (snd (tryCatch m h s)) = fst s @ calls \<and> list_all A calls"
  proof (cases r)
    case (Inr x)
    then show ?thesis using m c1 by (simp add: tryCatch_def)
  next
    case (Inl e)
    obtain r2 s2 where f: "h e s1 = (r2, s2)" by (cases "h e s1")
    from emitsD [OF assms(2) f] obtain c2 where c2: "fst s2 = fst s1 @ c2" "list_all A c2" by blast
    have "fst (snd (tryCatch m h s)) = fst s @ (c1 @ c2)"
      using m Inl f c1 c2 by (simp add: tryCatch_def)
    moreover have "list_all A (c1 @ c2)" using c1 c2 by simp
    ultimately show ?thesis by blast
  qed
qed

lemma emits_holding: "emits A m \<Longrightarrow> emits A (holding n m)"
  unfolding emits_def holding_def
  by (auto split: prod.splits sum.splits) (metis fst_conv snd_conv)+

lemma emits_case_option:
  "emits A a \<Longrightarrow> (\<And>x. emits A (b x)) \<Longrightarrow> emits A (case v of None \<Rightarrow> a | Some x \<Rightarrow> b x)"
  by (cases v) auto

lemma emits_case_sum:
  "(\<And>x. emits A (a x)) \<Longrightarrow> (\<And>x. emits A (b x)) \<Longrightarrow> emits A (case v of Inl x \<Rightarrow> a x | Inr x \<Rightarrow> b x)"
  by (cases v) auto

lemma emits_case_prod:
  "(\<And>x y. emits A (f x y)) \<Longrightarrow> emits A (case p of (x, y) \<Rightarrow> f x y)"
  by (cases p) auto

lemma emits_if: "emits A a \<Longrightarrow> emits A b \<Longrightarrow> emits A (if c then a else b)"
  by simp

lemma emits_settleAll:
  "(\<And>m. m \<in> set ms \<Longrightarrow> emits A m) \<Longrightarrow> emits A (settleAll ms)"
proof (induction ms)
  case Nil
  then show ?case by (simp add: emits_def)
next
  case (Cons m ms)
  have m: "emits A m" using Cons.prems by simp
  have rest: "emits A (settleAll ms)" using Cons by simp
  show ?case
  proof (rule emitsI)
    fix s
    obtain r s1 where a: "m s = (r, s1)" by (cases "m s")
    obtain rs s2 where b: "settleAll ms s1 = (rs, s2)" by (cases "settleAll ms s1")
    from emitsD [OF m a] obtain c1 where c1: "fst s1 = fst s @ c1" "list_all A c1" by blast
    from emitsD [OF rest b] obtain c2 where c2: "fst s2 = fst s1 @ c2" "list_all A c2" by blast
    have "fst (snd (settleAll (m # ms) s)) = fst s @ (c1 @ c2)" using a b c1 c2 by simp
    moreover have "list_all A (c1 @ c2)" using c1 c2 by simp
    ultimately show "\<exists>calls. fst (snd (settleAll (m # ms) s)) = fst s @ calls \<and> list_all A calls"
      by blast
  qed
qed

lemma emits_promiseAll:
  "(\<And>m. m \<in> set ms \<Longrightarrow> emits A m) \<Longrightarrow> emits A (promiseAll ms)"
  using emits_settleAll [of ms A]
  unfolding emits_def promiseAll_def by (auto split: prod.splits) (metis fst_conv snd_conv)

lemmas emits_intros = emits_resolve emits_reject emits_readClock emits_readRandom
  emits_andThen emits_tryCatch emits_holding emits_case_option emits_case_sum emits_case_prod
  emits_if emits_promiseAll


lemma emits_generateId: "emits A (generateId center)"
  unfolding generateId_def by (intro emits_intros)

lemma emits_resolveText: "emits A (resolveText x d)"
  unfolding resolveText_def by (intro emits_intros)

lemma emits_buildNotification: "emits A (buildNotification center input)"
  unfolding buildNotification_def buildDirectly_def buildFromTemplate_def
  by (intro emits_intros emits_generateId emits_resolveText)

lemma emits_beforeSendLoop: "emits isBeforeSendCall (beforeSendLoop ms n)"
proof (induction ms arbitrary: n)
  case Nil
  show ?case by (simp add: emits_resolve)
next
  case (Cons m ms)
  show ?case
    by (simp only: beforeSendLoop.simps) (intro emits_intros emits_invoke Cons.IH, simp)
qed

lemma emits_afterSendLoop: "emits (\<lambda>c. dispatchTarget c = None) (afterSendLoop ms n)"
proof (induction ms)
  case Nil
  show ?case by (simp add: emits_resolve)
next
  case (Cons m ms)
  show ?case
    by (simp only: afterSendLoop.simps) (intro emits_intros emits_invoke Cons.IH, simp)
qed

lemma emits_errorLoop: "emits (\<lambda>c. dispatchTarget c = None) (errorLoop ms e n)"
proof (induction ms)
  case Nil
  show ?case by (simp add: emits_resolve)
next
  case (Cons m ms)
  show ?case
    by (simp only: errorLoop.simps) (intro emits_intros emits_invoke Cons.IH, simp)
qed

lemma emits_forEachCallback: "A c \<Longrightarrow> emits A (forEachCallback c cbs)"
proof (induction cbs)
  case Nil
  show ?case by (simp add: emits_resolve)
next
  case (Cons cb cbs)
  then show ?case
    by (simp only: forEachCallback.simps) (intro emits_intros emits_invoke, simp_all)
qed

lemma emits_notifySubscribers: "emits (\<lambda>c. dispatchTarget c = None) (notifySubscribers center n)"
  unfolding notifySubscribers_def by (intro emits_intros emits_forEachCallback) simp

lemma emits_notifyEventSubscribers:
  "emits (\<lambda>c. dispatchTarget c = None) (notifyEventSubscribers center ev)"
  unfolding notifyEventSubscribers_def by (intro emits_intros emits_forEachCallback) simp

lemma emits_saveReceipt: "emits (\<lambda>c. dispatchTarget c = None) (saveReceiptIfSupported center r)"
  unfolding saveReceiptIfSupported_def by (intro emits_intros emits_invoke) simp

lemma emits_saveReceipt_weak:
  "emits (\<lambda>c. dispatchTarget c = None \<or> dispatchTarget c = Some i) (saveReceiptIfSupported center r)"
  by (rule emits_mono [OF emits_saveReceipt]) simp

lemma emits_deliverToChannel:
  "emits (\<lambda>c. dispatchTarget c = None \<or> dispatchTarget c = Some (n_id n))
     (deliverToChannel center n prefs ch)"
  unfolding deliverToChannel_def Let_def
  by (intro emits_intros emits_invoke emits_saveReceipt_weak) simp_all

lemma emits_sendNow:
  "emits (\<lambda>c. dispatchTarget c = None \<or> dispatchTarget c = Some (n_id n)) (sendNow center n)"
  unfolding sendNow_def Let_def
  by (intro emits_intros emits_invoke) (auto intro: emits_deliverToChannel)

lemma emits_enqueueOrSend:
  "emits (\<lambda>c. dispatchTarget c = None \<or> dispatchTarget c = Some (n_id n)) (enqueueOrSend center n)"
  unfolding enqueueOrSend_def
  by (intro emits_intros emits_invoke emits_sendNow) simp_all

lemma emits_dispatch:
  "emits (\<lambda>c. dispatchTarget c = None \<or> dispatchTarget c = Some (n_id n)) (dispatch center n)"
  unfolding dispatch_def applyAfterSendMiddleware_def
  by (intro emits_intros emits_enqueueOrSend
      emits_mono [OF emits_afterSendLoop] emits_mono [OF emits_notifySubscribers]
      emits_mono [OF emits_notifyEventSubscribers]) simp_all

lemma follow_append:
  "dispatchesFollowSave S (xs @ ys)
     = (dispatchesFollowSave S xs
        \<and> dispatchesFollowSave (S \<union> {n_id n | n. StorageSave n \<in> set xs}) ys)"
proof (induction S xs rule: dispatchesFollowSave.induct)
  case (1 saved)
  show ?case by simp
next
  case (2 saved n calls)
  have "insert (n_id n) saved \<union> {n_id m | m. StorageSave m \<in> set calls}
      = saved \<union> {n_id m | m. StorageSave m \<in> set (StorageSave n # calls)}"
    by auto
  with 2 show ?case by simp
qed (auto)

lemma follow_subset:
  "dispatchesFollowSave S xs \<Longrightarrow> S \<subseteq> T \<Longrightarrow> dispatchesFollowSave T xs"
proof (induction S xs arbitrary: T rule: dispatchesFollowSave.induct)
  case (2 saved n calls)
  have "insert (n_id n) saved \<subseteq> insert (n_id n) T" using 2 by blast
  with 2 show ?case by simp
qed (auto split: option.splits)

lemma follow_targets:
  "list_all (\<lambda>c. dispatchTarget c = None \<or> dispatchTarget c = Some i) xs \<Longrightarrow> i \<in> S
   \<Longrightarrow> dispatchesFollowSave S xs"
proof (induction S xs rule: dispatchesFollowSave.induct)
  case (2 saved n calls)
  then show ?case by simp
qed (auto)

lemma follow_noDispatch:
  "list_all (\<lambda>c. dispatchTarget c = None) xs \<Longrightarrow> dispatchesFollowSave S xs"
proof (induction S xs rule: dispatchesFollowSave.induct)
  case (2 saved n calls)
  then show ?case by simp
qed (auto)


lemma emits_nothing:
  assumes "emits (\<lambda>c. False) m" and "m s = (r, s')"
  shows "fst s' = fst s"
proof -
  from emitsD [OF assms] obtain calls where "fst s' = fst s @ calls" "list_all (\<lambda>c. False) calls"
    by blast
  then show ?thesis by (cases calls) auto
qed

lemma emits_catch_block:
  "emits (\<lambda>c. dispatchTarget c = None \<or> dispatchTarget c = Some (n_id n))
     (tryCatch (dispatch center n)
        (\<lambda>(err, notification).
            andThen (applyErrorMiddleware center err notification) (\<lambda>_. reject err)))"
  unfolding applyErrorMiddleware_def
  by (intro emits_intros emits_dispatch emits_mono [OF emits_errorLoop]) simp

lemma isBeforeSendCall_noDispatch: "isBeforeSendCall c \<Longrightarrow> dispatchTarget c = None"
  by (cases c) auto

lemma send_follows_save:
  "dispatchesFollowSave {} (fst (snd (send center input ([], w))))"
proof -
  let ?A = "\<lambda>n c. dispatchTarget c = None \<or> dispatchTarget c = Some (n_id n)"
  let ?tail = "\<lambda>n. tryCatch (dispatch center n)
        (\<lambda>(err, notification).
            andThen (applyErrorMiddleware center err notification) (\<lambda>_. reject err))"
  obtain r0 s1 where b: "buildNotification center input ([], w) = (r0, s1)"
    by (cases "buildNotification center input ([], w)")
  have t1: "fst s1 = []"
    using emits_nothing [OF emits_buildNotification b] by simp
  show ?thesis
  proof (cases r0)
    case (Inl e)
    then show ?thesis using b t1 by (simp add: send_def andThen_def)
  next
    case built: (Inr built)
    obtain r1 s2 where m: "applyBeforeSendMiddleware center built s1 = (r1, s2)"
      by (cases "applyBeforeSendMiddleware center built s1")
    from emitsD [OF emits_beforeSendLoop m [unfolded applyBeforeSendMiddleware_def]]
    have hooks: "list_all isBeforeSendCall (fst s2)"
      using t1 by auto
    then have quiet: "list_all (\<lambda>c. dispatchTarget c = None) (fst s2)"
      by (simp add: list_all_iff isBeforeSendCall_noDispatch)
    show ?thesis
    proof (cases r1)
      case (Inl e)
      then show ?thesis
        using b built m follow_noDispatch [OF quiet] by (simp add: send_def andThen_def)
    next
      case passed: (Inr filtered)
      show ?thesis
      proof (cases filtered)
        case None
        then show ?thesis
          using b built m passed follow_noDispatch [OF quiet]
          by (simp add: send_def andThen_def reject_def)
      next
        case (Some n)
        obtain r2 s3 where sv: "invoke (StorageSave n) (st_save (c_storage center) n) s2 = (r2, s3)"
          by (cases "invoke (StorageSave n) (st_save (c_storage center) n) s2")
        then have t3: "fst s3 = fst s2 @ [StorageSave n]"
          by (auto simp: invoke_def split: prod.splits)
        have saved: "dispatchesFollowSave {} (fst s2 @ [StorageSave n])"
          using follow_noDispatch [OF quiet] by (simp add: follow_append)
        show ?thesis
        proof (cases r2)
          case (Inl e)
          then show ?thesis
            using b built m passed Some sv t3 saved by (simp add: send_def andThen_def)
        next
          case (Inr u)
          obtain r3 s4 where tl: "?tail n s3 = (r3, s4)"
            by (cases "?tail n s3")
          from emitsD [OF emits_catch_block tl] obtain calls
            where t4: "fst s4 = fst s3 @ calls" and c4: "list_all (?A n) calls"
            by blast
          have whole: "send center input ([], w) = (r3, s4)"
            using b built m passed Some sv Inr tl by (simp add: send_def andThen_def)
          have mem: "n_id n \<in> {} \<union> {n_id m | m. StorageSave m \<in> set (fst s2 @ [StorageSave n])}"
            by auto
          have "dispatchesFollowSave ({} \<union> {n_id m | m. StorageSave m \<in> set (fst s2 @ [StorageSave n])}) calls"
            using follow_targets [OF c4 mem] .
          then have "dispatchesFollowSave {} ((fst s2 @ [StorageSave n]) @ calls)"
            using saved by (simp only: follow_append)
          then show ?thesis
            using whole t4 t3 by simp
        qed
      qed
    qed
  qed
qed

lemma send_saves_first:
  assumes b: "buildNotification center input ([], w) = (Inr built, s1)"
    and m: "applyBeforeSendMiddleware center built s1 = (Inr (Some n), s2)"
  shows "list_all isBeforeSendCall (fst s2)
       \<and> (\<exists>rest. fst (snd (send center input ([], w))) = fst s2 @ StorageSave n # rest)"
proof -
  let ?tail = "tryCatch (dispatch center n)
        (\<lambda>(err, notification).
            andThen (applyErrorMiddleware center err notification) (\<lambda>_. reject err))"
  have t1: "fst s1 = []"
    using emits_nothing [OF emits_buildNotification b] by simp
  from emitsD [OF emits_beforeSendLoop m [unfolded applyBeforeSendMiddleware_def]]
  have hooks: "list_all isBeforeSendCall (fst s2)"
    using t1 by auto
  obtain r2 s3 where sv: "invoke (StorageSave n) (st_save (c_storage center) n) s2 = (r2, s3)"
    by (cases "invoke (StorageSave n) (st_save (c_storage center) n) s2")
  then have t3: "fst s3 = fst s2 @ [StorageSave n]"
    by (auto simp: invoke_def split: prod.splits)
  have "\<exists>rest. fst (snd (send center input ([], w))) = fst s2 @ StorageSave n # rest"
  proof (cases r2)
    case (Inl e)
    then show ?thesis using b m sv t3 by (simp add: send_def andThen_def)
  next
    case (Inr u)
    obtain r3 s4 where tl: "?tail s3 = (r3, s4)"
      by (cases "?tail s3")
    from emitsD [OF emits_catch_block tl] obtain calls where t4: "fst s4 = fst s3 @ calls"
      by blast
    have "send center input ([], w) = (r3, s4)"
      using b m sv Inr tl by (simp add: send_def andThen_def)
    then show ?thesis using t4 t3 by simp
  qed
  with hooks show ?thesis by simp
qed

lemma send_after_save:
  assumes b: "buildNotification center input ([], w) = (Inr built, s1)"
    and m: "applyBeforeSendMiddleware center built s1 = (Inr (Some n), s2)"
    and sv: "st_save (c_storage center) n (snd s2) = (r, w3)"
  shows "(case r of
            Inl e \<Rightarrow> send center input ([], w) = (Inl e, (fst s2 @ [StorageSave n], w3))
          | Inr u \<Rightarrow>
              send center input ([], w)
                = tryCatch (dispatch center n)
                    (\<lambda>(err, notification).
                       andThen (applyErrorMiddleware center err notification) (\<lambda>_. reject err))
                    (fst s2 @ [StorageSave n], w3))"
  using b m sv by (cases r) (simp_all add: send_def andThen_def invoke_def)

section \<open>The preference gate: categories and quiet hours\<close>

lemma split_colon_field:
  "CHR '':'' \<notin> set hs \<Longrightarrow> split_colon (hs @ CHR '':'' # ms) = hs # split_colon ms"
  by (induction hs) auto

lemma firstNumber_field:
  "CHR '':'' \<notin> set hs \<Longrightarrow> firstNumber Number (hs @ CHR '':'' # ms) = Number hs"
  by (simp add: firstNumber_def split_colon_field)

text \<open>
  C5, as stated, fails: with an allow-list \<open>[billing]\<close> on the channel and a notification
  that has no category, \<open>canSend\<close> returns true. The source guards the allow-list check
  with \<open>&& notification.category\<close>.
\<close>

theorem canSend_category_absent_counterexample:
  "p_channels billingOnly inapp
     = Some \<lparr> cp_enabled = True, cp_categories = Some [''billing''], cp_quietHours = None \<rparr>
   \<and> n_category (sampleNotification [inapp]) = None
   \<and> canSend NumberOfDigits inapp (sampleNotification [inapp]) billingOnly 10"
  by (simp add: canSend_def billingOnly_def sampleNotification_def)

text \<open>
  C5, amended: when the channel's preference entry has a categories allow-list,
  \<open>canSend\<close> returns false whenever the notification's category is a non-empty string
  that is not a member of the list; a notification whose category is absent (or the empty
  string) is not restricted by the list: \<open>canSend\<close> answers as it would with no list.
\<close>

theorem canSend_categories:
  assumes "p_channels prefs name = Some cp" and "cp_categories cp = Some cats"
  shows "(\<forall>cat. n_category n = Some cat \<and> cat \<noteq> [] \<and> cat \<notin> set cats
            \<longrightarrow> \<not> canSend Number name n prefs h)
       \<and> (\<not> truthy_string (n_category n)
            \<longrightarrow> canSend Number name n prefs h
                = canSend Number name n
                    (prefs\<lparr> p_channels := (p_channels prefs)(name := Some (cp\<lparr> cp_categories := None \<rparr>)) \<rparr>) h)"
  using assms
  by (auto simp: canSend_def truthy_string_def Let_def split: option.splits)

theorem canSend_categories_witness:
  "p_channels billingOnly inapp
     = Some \<lparr> cp_enabled = True, cp_categories = Some [''billing''], cp_quietHours = None \<rparr>
   \<and> \<not> canSend NumberOfDigits inapp
         ((sampleNotification [inapp])\<lparr> n_category := Some ''marketing'' \<rparr>) billingOnly 10
   \<and> canSend NumberOfDigits inapp
         ((sampleNotification [inapp])\<lparr> n_category := Some ''billing'' \<rparr>) billingOnly 10"
proof -
  let ?cp = "\<lparr> cp_enabled = True, cp_categories = Some [''billing''], cp_quietHours = None \<rparr>"
  have entry: "p_channels billingOnly inapp = Some ?cp"
    by (simp add: billingOnly_def)
  have list: "cp_categories ?cp = Some [''billing'']"
    by simp
  have "\<not> canSend NumberOfDigits inapp
          ((sampleNotification [inapp])\<lparr> n_category := Some ''marketing'' \<rparr>) billingOnly 10"
    using canSend_categories [OF entry list,
        of "(sampleNotification [inapp])\<lparr> n_category := Some ''marketing'' \<rparr>" NumberOfDigits 10]
    by simp
  moreover have "canSend NumberOfDigits inapp
          ((sampleNotification [inapp])\<lparr> n_category := Some ''billing'' \<rparr>) billingOnly 10"
    by (simp add: canSend_def billingOnly_def)
  ultimately show ?thesis using entry by simp
qed

text \<open>
  C6: with the other checks of \<open>canSend\<close> passing and a quiet-hours window whose start
  and end are \<open>hs:ms\<close> and \<open>he:me\<close>, \<open>canSend\<close> is false exactly when the current hour
  is in the window given by the hours \<open>Number hs\<close> and \<open>Number he\<close>: at or after the
  start or before the end when the start is greater than the end, from the start up to
  but not including the end otherwise. The minutes \<open>ms\<close>, \<open>me\<close> and the time zone of the
  window are arbitrary, and of the current time \<open>canSend\<close> receives the hour only.
\<close>

theorem canSend_quiet_hours:
  assumes "p_globalMute prefs \<noteq> Some True"
    and "p_channels prefs name = Some cp" and "cp_enabled cp"
    and "cp_categories cp = None \<or> \<not> truthy_string (n_category n)
         \<or> the (n_category n) \<in> set (the (cp_categories cp))"
    and "cp_quietHours cp = Some q"
    and "q_start q = hs @ CHR '':'' # ms" and "CHR '':'' \<notin> set hs" and "Number hs = Some startHour"
    and "q_end q = he @ CHR '':'' # me" and "CHR '':'' \<notin> set he" and "Number he = Some endHour"
  shows "canSend Number name n prefs currentHour =
      (\<not> (if startHour > endHour
          then int currentHour \<ge> startHour \<or> int currentHour < endHour
          else startHour \<le> int currentHour \<and> int currentHour < endHour))"
  using assms
  by (auto simp: canSend_def inQuietHours_def firstNumber_field js_gt_def js_ge_def js_lt_def
      truthy_string_def Let_def split: option.splits)

text \<open>The window 22:00 to 06:00 denies at hours 23 and 2 and permits at hour 10.\<close>

theorem canSend_quiet_hours_witness:
  "\<not> canSend NumberOfDigits inapp (sampleNotification [inapp]) overnight 23
   \<and> \<not> canSend NumberOfDigits inapp (sampleNotification [inapp]) overnight 2
   \<and> canSend NumberOfDigits inapp (sampleNotification [inapp]) overnight 10"
proof -
  let ?q = "\<lparr> q_start = ''22:00'', q_end = ''06:00'', q_timezone = None \<rparr>"
  let ?cp = "\<lparr> cp_enabled = True, cp_categories = None, cp_quietHours = Some ?q \<rparr>"
  have a1: "p_globalMute overnight \<noteq> Some True" by (simp add: overnight_def)
  have a2: "p_channels overnight inapp = Some ?cp" by (simp add: overnight_def)
  have a3: "cp_enabled ?cp" by simp
  have a4: "cp_categories ?cp = None \<or> \<not> truthy_string (n_category (sampleNotification [inapp]))
      \<or> the (n_category (sampleNotification [inapp])) \<in> set (the (cp_categories ?cp))" by simp
  have a5: "cp_quietHours ?cp = Some ?q" by simp
  have a6: "q_start ?q = ''22'' @ CHR '':'' # ''00''" by simp
  have a7: "CHR '':'' \<notin> set ''22''" by simp
  have a8: "NumberOfDigits ''22'' = Some 22" by (simp add: NumberOfDigits_def digitValue_def decimalDigits_def)
  have a9: "q_end ?q = ''06'' @ CHR '':'' # ''00''" by simp
  have a10: "CHR '':'' \<notin> set ''06''" by simp
  have a11: "NumberOfDigits ''06'' = Some 6" by (simp add: NumberOfDigits_def digitValue_def decimalDigits_def)
  note gate = canSend_quiet_hours [OF a1 a2 a3 a4 a5 a6 a7 a8 a9 a10 a11]
  show ?thesis using gate [of 23] gate [of 2] gate [of 10] by simp
qed

section \<open>Persistence before delivery\<close>

text \<open>
  C9: when the pre-dispatch chain passes a notification on, the calls made up to then
  are calls of \<open>beforeSend\<close> hooks only, and the next thing \<open>send\<close> does is to run
  the storage's own \<open>save\<close> on that notification, as the chain returned it, in the world
  the chain left. If \<open>save\<close> throws, \<open>send\<close> rejects there, with nothing enqueued or
  delivered. Otherwise enqueue or delivery, and all that follows, starts in the world
  \<open>save\<close> left, whatever becomes of the delivery afterwards. In the calls \<open>send\<close>
  makes, every enqueue and every transport send is for a notification that an earlier
  call passed to \<open>storage.save\<close>.
\<close>

theorem send_saves_before_dispatch:
  "dispatchesFollowSave {} (fst (snd (send center input ([], w))))
   \<and> (\<forall>built s1 n s2.
        buildNotification center input ([], w) = (Inr built, s1)
        \<and> applyBeforeSendMiddleware center built s1 = (Inr (Some n), s2)
        \<longrightarrow> list_all isBeforeSendCall (fst s2)
            \<and> (\<exists>rest. fst (snd (send center input ([], w))) = fst s2 @ StorageSave n # rest)
            \<and> (case st_save (c_storage center) n (snd s2) of
                  (Inl e, w3) \<Rightarrow>
                    send center input ([], w) = (Inl e, (fst s2 @ [StorageSave n], w3))
                | (Inr u, w3) \<Rightarrow>
                    send center input ([], w)
                      = tryCatch (dispatch center n)
                          (\<lambda>(err, notification).
                             andThen (applyErrorMiddleware center err notification)
                               (\<lambda>_. reject err))
                          (fst s2 @ [StorageSave n], w3)))"
proof (intro conjI allI impI)
  show "dispatchesFollowSave {} (fst (snd (send center input ([], w))))"
    by (rule send_follows_save)
next
  fix built s1 n s2
  assume "buildNotification center input ([], w) = (Inr built, s1)
        \<and> applyBeforeSendMiddleware center built s1 = (Inr (Some n), s2)"
  then have b: "buildNotification center input ([], w) = (Inr built, s1)"
    and m: "applyBeforeSendMiddleware center built s1 = (Inr (Some n), s2)"
    by simp_all
  from send_saves_first [OF b m]
  show "list_all isBeforeSendCall (fst s2)"
    and "\<exists>rest. fst (snd (send center input ([], w))) = fst s2 @ StorageSave n # rest"
    by simp_all
  obtain r w3 where sv: "st_save (c_storage center) n (snd s2) = (r, w3)"
    by (cases "st_save (c_storage center) n (snd s2)")
  from send_after_save [OF b m sv]
  show "case st_save (c_storage center) n (snd s2) of
                  (Inl e, w3) \<Rightarrow>
                    send center input ([], w) = (Inl e, (fst s2 @ [StorageSave n], w3))
                | (Inr u, w3) \<Rightarrow>
                    send center input ([], w)
                      = tryCatch (dispatch center n)
                          (\<lambda>(err, notification).
                             andThen (applyErrorMiddleware center err notification)
                               (\<lambda>_. reject err))
                          (fst s2 @ [StorageSave n], w3)"
    unfolding sv by simp
qed


text \<open>
  A \<open>beforeSend\<close> hook raises the priority and the only transport throws. The store
  holds the notification with the raised priority before the transport is asked, and the
  failed delivery ends in a failed receipt and the status failed.
\<close>

theorem send_saves_before_dispatch_witness:
  "buildNotification undeliverableCenter (sampleInput [inapp]) ([], emptyWorld)
     = (Inr (sampleNotification [inapp]), ([], emptyWorld))
   \<and> applyBeforeSendMiddleware undeliverableCenter (sampleNotification [inapp]) ([], emptyWorld)
     = (Inr (Some ((sampleNotification [inapp])\<lparr> n_priority := high \<rparr>)),
        ([BeforeSendCall ''raise-priority'' (sampleNotification [inapp])], emptyWorld))
   \<and> st_save (c_storage undeliverableCenter) ((sampleNotification [inapp])\<lparr> n_priority := high \<rparr>)
        emptyWorld
     = (Inr (), emptyWorld
          \<lparr> w_notifications := [(''notif_1700000000000_k3x9q2a7b'',
                                  (sampleNotification [inapp])\<lparr> n_priority := high \<rparr>)] \<rparr>)
   \<and> dispatchesFollowSave {}
        (fst (snd (send undeliverableCenter (sampleInput [inapp]) ([], emptyWorld))))
   \<and> send undeliverableCenter (sampleInput [inapp]) ([], emptyWorld)
     = (Inr ((sampleNotification [inapp])\<lparr> n_priority := high, n_status := StFailed \<rparr>),
        ([BeforeSendCall ''raise-priority'' (sampleNotification [inapp]),
          StorageSave ((sampleNotification [inapp])\<lparr> n_priority := high \<rparr>),
          StorageGetPreferences ''u1'',
          TransportCanSend inapp ((sampleNotification [inapp])\<lparr> n_priority := high \<rparr>),
          TransportSend inapp ((sampleNotification [inapp])\<lparr> n_priority := high \<rparr>),
          StorageSaveReceipt
            \<lparr> r_notificationId = ''notif_1700000000000_k3x9q2a7b'', r_channel = inapp,
              r_status = DsFailed, r_attempts = 1, r_lastAttempt = 1700000000000,
              r_nextRetry = None, r_error = Some ''socket closed'' \<rparr>,
          StorageSave ((sampleNotification [inapp])\<lparr> n_priority := high, n_status := StFailed \<rparr>)],
         emptyWorld
           \<lparr> w_notifications := [(''notif_1700000000000_k3x9q2a7b'',
                (sampleNotification [inapp])\<lparr> n_priority := high, n_status := StFailed \<rparr>)],
             w_receipts := [(''notif_1700000000000_k3x9q2a7b'',
                [\<lparr> r_notificationId = ''notif_1700000000000_k3x9q2a7b'', r_channel = inapp,
                   r_status = DsFailed, r_attempts = 1, r_lastAttempt = 1700000000000,
                   r_nextRetry = None, r_error = Some ''socket closed'' \<rparr>])] \<rparr>))"
proof -
  let ?c = undeliverableCenter
  let ?n = "(sampleNotification [inapp])\<lparr> n_priority := high \<rparr>"
  let ?w3 = "emptyWorld
          \<lparr> w_notifications := [(''notif_1700000000000_k3x9q2a7b'', ?n)] \<rparr>"
  let ?handler = "\<lambda>(err, notification).
      andThen (applyErrorMiddleware ?c err notification) (\<lambda>_. reject err)"
  have b: "buildNotification ?c (sampleInput [inapp]) ([], emptyWorld)
     = (Inr (sampleNotification [inapp]), ([], emptyWorld))"
    by (simp add: undeliverableCenter_def engine_defs async_defs memory_defs)
  have m: "applyBeforeSendMiddleware ?c (sampleNotification [inapp]) ([], emptyWorld)
     = (Inr (Some ?n), ([BeforeSendCall ''raise-priority'' (sampleNotification [inapp])], emptyWorld))"
    by (simp add: undeliverableCenter_def raisePriority_def engine_defs async_defs memory_defs)
  have sv: "st_save (c_storage ?c) ?n emptyWorld = (Inr (), ?w3)"
    by (simp add: undeliverableCenter_def sampleNotification_def memory_defs)
  note all = send_saves_before_dispatch [of ?c "sampleInput [inapp]" emptyWorld]
  from all have follow: "dispatchesFollowSave {}
        (fst (snd (send ?c (sampleInput [inapp]) ([], emptyWorld))))"
    by (rule conjunct1)
  note step = all [THEN conjunct2, rule_format, OF conjI [OF b m]]
  from step [THEN conjunct2, THEN conjunct2]
  have entered: "send ?c (sampleInput [inapp]) ([], emptyWorld)
      = tryCatch (dispatch ?c ?n) ?handler
          ([BeforeSendCall ''raise-priority'' (sampleNotification [inapp]), StorageSave ?n], ?w3)"
    by (simp add: sv)
  have delivery: "tryCatch (dispatch ?c ?n) ?handler
          ([BeforeSendCall ''raise-priority'' (sampleNotification [inapp]), StorageSave ?n], ?w3)
      = (Inr (?n\<lparr> n_status := StFailed \<rparr>),
        ([BeforeSendCall ''raise-priority'' (sampleNotification [inapp]),
          StorageSave ?n,
          StorageGetPreferences ''u1'',
          TransportCanSend inapp ?n,
          TransportSend inapp ?n,
          StorageSaveReceipt
            \<lparr> r_notificationId = ''notif_1700000000000_k3x9q2a7b'', r_channel = inapp,
              r_status = DsFailed, r_attempts = 1, r_lastAttempt = 1700000000000,
              r_nextRetry = None, r_error = Some ''socket closed'' \<rparr>,
          StorageSave (?n\<lparr> n_status := StFailed \<rparr>)],
         emptyWorld
           \<lparr> w_notifications := [(''notif_1700000000000_k3x9q2a7b'', ?n\<lparr> n_status := StFailed \<rparr>)],
             w_receipts := [(''notif_1700000000000_k3x9q2a7b'',
                [\<lparr> r_notificationId = ''notif_1700000000000_k3x9q2a7b'', r_channel = inapp,
                   r_status = DsFailed, r_attempts = 1, r_lastAttempt = 1700000000000,
                   r_nextRetry = None, r_error = Some ''socket closed'' \<rparr>])] \<rparr>))"
    by (simp add: undeliverableCenter_def raisePriority_def throwingTransport_def sampleNotification_def
        allFailed_def anyDelivered_def engine_defs async_defs memory_defs)
  have run: "send ?c (sampleInput [inapp]) ([], emptyWorld)
      = (Inr (?n\<lparr> n_status := StFailed \<rparr>),
        ([BeforeSendCall ''raise-priority'' (sampleNotification [inapp]),
          StorageSave ?n,
          StorageGetPreferences ''u1'',
          TransportCanSend inapp ?n,
          TransportSend inapp ?n,
          StorageSaveReceipt
            \<lparr> r_notificationId = ''notif_1700000000000_k3x9q2a7b'', r_channel = inapp,
              r_status = DsFailed, r_attempts = 1, r_lastAttempt = 1700000000000,
              r_nextRetry = None, r_error = Some ''socket closed'' \<rparr>,
          StorageSave (?n\<lparr> n_status := StFailed \<rparr>)],
         emptyWorld
           \<lparr> w_notifications := [(''notif_1700000000000_k3x9q2a7b'', ?n\<lparr> n_status := StFailed \<rparr>)],
             w_receipts := [(''notif_1700000000000_k3x9q2a7b'',
                [\<lparr> r_notificationId = ''notif_1700000000000_k3x9q2a7b'', r_channel = inapp,
                   r_status = DsFailed, r_attempts = 1, r_lastAttempt = 1700000000000,
                   r_nextRetry = None, r_error = Some ''socket closed'' \<rparr>])] \<rparr>))"
    using entered delivery by (rule trans)
  from b m sv follow run show ?thesis by (intro conjI)
qed

section \<open>Aggregating the receipts of a delivery pass\<close>








text \<open>
  A transport whose \<open>send\<close> throws does not make the channel's operation reject: the
  exception is caught and becomes a failed receipt with one attempt and the error's
  message (shown here for a storage that keeps no receipts).
\<close>

lemma deliverToChannel_send_throws:
  assumes "c_transports center ch = Some transport"
    and "ta_canSend transport n prefs (snd s) = (Inr True, w1)"
    and "ta_send transport n prefs w1 = (Inl e, w2)"
    and "st_saveReceipt (c_storage center) = None"
  shows "\<exists>receipt s'. deliverToChannel center n prefs ch s = (Inr (Some receipt), s')
      \<and> r_status receipt = DsFailed \<and> r_attempts receipt = 1
      \<and> r_channel receipt = ch \<and> r_error receipt = Some (message e)"
  using assms
  by (simp add: deliverToChannel_def saveReceiptIfSupported_def async_defs Let_def
      split: prod.splits)



section \<open>Deleting a notification\<close>

lemma invoke_calls: "invoke c f s = (r, s') \<Longrightarrow> fst s' = fst s @ [c]"
  by (auto simp: invoke_def split: prod.splits)





section \<open>Retrying failed deliveries\<close>

lemma retryLoop_sends:
  "retryLoop center n rs s = (r, s')
   \<Longrightarrow> \<exists>k. filter isTransportSend (fst s')
            = filter isTransportSend (fst s)
              @ take k (map (\<lambda>x. TransportSend (r_channel x) n)
                          (filter (\<lambda>x. c_transports center (r_channel x) \<noteq> None) rs))
          \<and> (r = Inr ()
              \<longrightarrow> length (filter (\<lambda>x. c_transports center (r_channel x) \<noteq> None) rs) \<le> k)"
proof (induction rs arbitrary: s)
  case Nil
  then show ?case by (simp add: resolve_def)
next
  case (Cons x rs)
  show ?case
  proof (cases "c_transports center (r_channel x)")
    case None
    with Cons.prems have "retryLoop center n rs s = (r, s')" by simp
    from Cons.IH [OF this] None show ?thesis by simp
  next
    case (Some transport)
    let ?prefs = "invoke (StorageGetPreferences (n_userId n))
                     (st_getPreferences (c_storage center) (n_userId n))"
    obtain rp s1 where p: "?prefs s = (rp, s1)" by (cases "?prefs s")
    have t1: "filter isTransportSend (fst s1) = filter isTransportSend (fst s)"
      using invoke_calls [OF p] by simp
    show ?thesis
    proof (cases rp)
      case (Inl e)
      with Cons.prems Some p have "r = Inl e" "s' = s1" by (simp_all add: andThen_def)
      with t1 show ?thesis by (intro exI [of _ 0]) simp
    next
      case (Inr prefs)
      let ?send = "invoke (TransportSend (r_channel x) n) (ta_send transport n prefs)"
      obtain rt s2 where t: "?send s1 = (rt, s2)" by (cases "?send s1")
      have t2: "filter isTransportSend (fst s2)
          = filter isTransportSend (fst s) @ [TransportSend (r_channel x) n]"
        using invoke_calls [OF t] t1 by simp
      show ?thesis
      proof (cases rt)
        case (Inl e)
        with Cons.prems Some p Inr t have "r = Inl e" "s' = s2" by (simp_all add: andThen_def)
        with t2 Some show ?thesis by (intro exI [of _ 1]) simp
      next
        case sent: (Inr receipt)
        with Cons.prems Some p Inr t have "retryLoop center n rs s2 = (r, s')"
          by (simp add: andThen_def)
        from Cons.IH [OF this] obtain k where
          k: "filter isTransportSend (fst s')
                = filter isTransportSend (fst s2)
                  @ take k (map (\<lambda>x. TransportSend (r_channel x) n)
                              (filter (\<lambda>x. c_transports center (r_channel x) \<noteq> None) rs))"
             "r = Inr ()
                \<longrightarrow> length (filter (\<lambda>x. c_transports center (r_channel x) \<noteq> None) rs) \<le> k"
          by blast
        with t2 Some show ?thesis by (intro exI [of _ "Suc k"]) simp
      qed
    qed
  qed
qed

lemma retryLoop_world:
  "retryLoop center n rs s = (Inr (), s') \<Longrightarrow> snd s' = foldl (retryOnce center n) (snd s) rs"
proof (induction rs arbitrary: s)
  case Nil
  then show ?case by (simp add: resolve_def)
next
  case (Cons x rs)
  show ?case
  proof (cases "c_transports center (r_channel x)")
    case None
    with Cons.prems have "retryLoop center n rs s = (Inr (), s')" by simp
    from Cons.IH [OF this] None show ?thesis by (simp add: retryOnce_def)
  next
    case (Some transport)
    obtain rp w1 where p: "st_getPreferences (c_storage center) (n_userId n) (snd s) = (rp, w1)"
      by (cases "st_getPreferences (c_storage center) (n_userId n) (snd s)")
    show ?thesis
    proof (cases rp)
      case (Inl e)
      with Cons.prems Some p show ?thesis by (simp add: andThen_def invoke_def)
    next
      case (Inr prefs)
      obtain rt w2 where t: "ta_send transport n prefs w1 = (rt, w2)"
        by (cases "ta_send transport n prefs w1")
      show ?thesis
      proof (cases rt)
        case (Inl e)
        with Cons.prems Some p Inr t show ?thesis by (simp add: andThen_def invoke_def)
      next
        case sent: (Inr receipt)
        with Cons.prems Some p Inr t
        have "retryLoop center n rs
                (fst s @ [StorageGetPreferences (n_userId n), TransportSend (r_channel x) n], w2)
              = (Inr (), s')"
          by (simp add: andThen_def invoke_def)
        from Cons.IH [OF this] Some p Inr t show ?thesis by (simp add: retryOnce_def)
      qed
    qed
  qed
qed

lemma retryLoop_rejects:
  "retryLoop center n rs s = (Inl e, s')
   \<Longrightarrow> \<exists>x transport wBefore.
         x \<in> set rs \<and> c_transports center (r_channel x) = Some transport
         \<and> (st_getPreferences (c_storage center) (n_userId n) wBefore = (Inl e, snd s')
              \<or> (\<exists>prefs. ta_send transport n prefs wBefore = (Inl e, snd s')))"
proof (induction rs arbitrary: s)
  case Nil
  then show ?case by (simp add: resolve_def)
next
  case (Cons x rs)
  show ?case
  proof (cases "c_transports center (r_channel x)")
    case None
    with Cons.prems have "retryLoop center n rs s = (Inl e, s')" by simp
    from Cons.IH [OF this] show ?thesis by auto
  next
    case (Some transport)
    obtain rp w1 where p: "st_getPreferences (c_storage center) (n_userId n) (snd s) = (rp, w1)"
      by (cases "st_getPreferences (c_storage center) (n_userId n) (snd s)")
    show ?thesis
    proof (cases rp)
      case (Inl e1)
      with Cons.prems Some p have "e1 = e" and "snd s' = w1"
        by (auto simp: andThen_def invoke_def)
      with p Inl have "st_getPreferences (c_storage center) (n_userId n) (snd s) = (Inl e, snd s')"
        by simp
      with Some show ?thesis by (intro exI [of _ x] exI [of _ transport] exI [of _ "snd s"]) simp
    next
      case (Inr prefs)
      obtain rt w2 where t: "ta_send transport n prefs w1 = (rt, w2)"
        by (cases "ta_send transport n prefs w1")
      show ?thesis
      proof (cases rt)
        case (Inl e1)
        with Cons.prems Some p Inr t have "e1 = e" and "snd s' = w2"
          by (auto simp: andThen_def invoke_def)
        with t Inl have "ta_send transport n prefs w1 = (Inl e, snd s')" by simp
        with Some show ?thesis
          by (intro exI [of _ x] exI [of _ transport] exI [of _ w1]) auto
      next
        case sent: (Inr receipt)
        with Cons.prems Some p Inr t
        have "retryLoop center n rs
                (fst s @ [StorageGetPreferences (n_userId n), TransportSend (r_channel x) n], w2)
              = (Inl e, s')"
          by (simp add: andThen_def invoke_def)
        from Cons.IH [OF this] show ?thesis by auto
      qed
    qed
  qed
qed

lemma emits_getDeliveryStatus:
  "emits (\<lambda>c. \<not> isTransportSend c) (getDeliveryStatus center ident)"
  unfolding getDeliveryStatus_def by (intro emits_intros emits_invoke) simp

text \<open>
  C7, as stated, fails: \<open>retryFailed\<close> selects receipts by their own status and
  channel and never looks for a later receipt of the same channel. With the stored
  receipts failed, delivered of the channel email (the last one delivered), it calls the
  email transport again.
\<close>

theorem retryFailed_after_delivered_counterexample:
  "fst (getDeliveryStatus emailCenter ''notif_1700000000000_k3x9q2a7b'' ([], retryWorld))
     = Inr [failedEmailReceipt, deliveredEmailReceipt]
   \<and> r_channel deliveredEmailReceipt = email \<and> r_status deliveredEmailReceipt = DsDelivered
   \<and> filter isTransportSend
        (fst (snd (retryFailed emailCenter ''notif_1700000000000_k3x9q2a7b'' None ([], retryWorld))))
     = [TransportSend email (sampleNotification [email])]"
  by (simp add: emailCenter_def retryWorld_def failedEmailReceipt_def deliveredEmailReceipt_def
      engine_defs async_defs memory_defs)

text \<open>
  C7, amended: for an id with no stored notification \<open>retryFailed\<close> rejects with the
  not-found error after the lookup alone. Otherwise take the stored receipts whose status
  is failed and whose channel is the given one (any channel when none is given), in
  stored order. The transport sends \<open>retryFailed\<close> makes are an initial part of: one
  send, with the stored notification, for each of these receipts whose channel has a
  registered transport. When \<open>retryFailed\<close> resolves they are all of them, and the
  world is the one that loading the preferences and sending leave, receipt after receipt.
  When it rejects, the error is one that loading the preferences or the transport's
  \<open>send\<close> threw for one of these receipts, and the receipts after the initial part are
  not retried. Every transport send made is for a stored receipt that is failed and
  matches the channel: receipts with another status never cause a send, and a later
  delivered receipt of the same channel does not prevent one.
\<close>

theorem retryFailed_sends:
  fixes center :: "('d, 'w) NotificationCenter"
  shows "(st_findById (c_storage center) ident w = (Inr None, w1)
          \<longrightarrow> retryFailed center ident channel ([], w)
              = (Inl (Error (''Notification '' @ ident @ '' not found'')),
                 ([StorageFindById ident], w1)))
       \<and> (\<forall>n receipts s2.
            st_findById (c_storage center) ident w = (Inr (Some n), w1)
            \<and> getDeliveryStatus center ident ([StorageFindById ident], w1) = (Inr receipts, s2)
            \<longrightarrow> (\<exists>k. filter isTransportSend (fst (snd (retryFailed center ident channel ([], w))))
                        = take k (map (\<lambda>x. TransportSend (r_channel x) n)
                            (filter (\<lambda>x. (r_status x = DsFailed
                                           \<and> (channel = None \<or> Some (r_channel x) = channel))
                                          \<and> c_transports center (r_channel x) \<noteq> None) receipts))
                    \<and> (fst (retryFailed center ident channel ([], w)) = Inr ()
                        \<longrightarrow> length (filter (\<lambda>x. (r_status x = DsFailed
                                           \<and> (channel = None \<or> Some (r_channel x) = channel))
                                          \<and> c_transports center (r_channel x) \<noteq> None) receipts)
                            \<le> k))
                \<and> (\<forall>c \<in> set (fst (snd (retryFailed center ident channel ([], w)))).
                      isTransportSend c
                      \<longrightarrow> (\<exists>x \<in> set receipts.
                             r_status x = DsFailed
                             \<and> (channel = None \<or> Some (r_channel x) = channel)
                             \<and> c = TransportSend (r_channel x) n))
                \<and> (fst (retryFailed center ident channel ([], w)) = Inr ()
                    \<longrightarrow> snd (snd (retryFailed center ident channel ([], w)))
                        = foldl (retryOnce center n) (snd s2)
                            (filter (\<lambda>x. r_status x = DsFailed
                                         \<and> (channel = None \<or> Some (r_channel x) = channel))
                               receipts))
                \<and> (\<forall>e. fst (retryFailed center ident channel ([], w)) = Inl e
                    \<longrightarrow> (\<exists>x \<in> set receipts.
                           r_status x = DsFailed
                           \<and> (channel = None \<or> Some (r_channel x) = channel)
                           \<and> (\<exists>transport wBefore.
                                 c_transports center (r_channel x) = Some transport
                                 \<and> (fst (st_getPreferences (c_storage center) (n_userId n) wBefore)
                                      = Inl e
                                     \<or> (\<exists>prefs. fst (ta_send transport n prefs wBefore)
                                                  = Inl e))))))"
proof (intro conjI allI impI ballI)
  assume "st_findById (c_storage center) ident w = (Inr None, w1)"
  then show "retryFailed center ident channel ([], w)
              = (Inl (Error (''Notification '' @ ident @ '' not found'')),
                 ([StorageFindById ident], w1))"
    by (simp add: retryFailed_def andThen_def invoke_def reject_def notFoundError_def)
next
  fix n and receipts :: "DeliveryReceipt list" and s2
  let ?run = "retryFailed center ident channel ([], w)"
  let ?find = "StorageFindById ident :: 'd call"
  let ?expected = "filter (\<lambda>x. (r_status x = DsFailed
                                 \<and> (channel = None \<or> Some (r_channel x) = channel))
                                \<and> c_transports center (r_channel x) \<noteq> None) receipts"
  assume "st_findById (c_storage center) ident w = (Inr (Some n), w1)
            \<and> getDeliveryStatus center ident ([StorageFindById ident], w1) = (Inr receipts, s2)"
  then have f: "st_findById (c_storage center) ident w = (Inr (Some n), w1)"
    and g: "getDeliveryStatus center ident ([?find], w1) = (Inr receipts, s2)"
    by simp_all
  from emitsD [OF emits_getDeliveryStatus g]
  have quiet: "filter isTransportSend (fst s2) = []"
    by (auto simp: list_all_iff filter_empty_conv)
  have run: "?run = retryLoop center n (failedReceipts channel receipts) s2"
    using f g by (simp add: retryFailed_def andThen_def invoke_def)
  obtain r s' where l: "retryLoop center n (failedReceipts channel receipts) s2 = (r, s')"
    by (cases "retryLoop center n (failedReceipts channel receipts) s2")
  from retryLoop_sends [OF l] quiet obtain k where
    k: "filter isTransportSend (fst s')
          = take k (map (\<lambda>x. TransportSend (r_channel x) n)
               (filter (\<lambda>x. c_transports center (r_channel x) \<noteq> None)
                  (failedReceipts channel receipts)))"
       "r = Inr () \<longrightarrow> length (filter (\<lambda>x. c_transports center (r_channel x) \<noteq> None)
                  (failedReceipts channel receipts)) \<le> k"
    by auto
  have ff: "filter (\<lambda>x. c_transports center (r_channel x) \<noteq> None) (failedReceipts channel receipts)
      = ?expected"
    by (simp add: failedReceipts_def)
  have sends: "filter isTransportSend (fst (snd ?run))
      = take k (map (\<lambda>x. TransportSend (r_channel x) n) ?expected)"
    using k(1) run l unfolding ff by simp
  show "\<exists>k. filter isTransportSend (fst (snd ?run))
                        = take k (map (\<lambda>x. TransportSend (r_channel x) n) ?expected)
                    \<and> (fst ?run = Inr () \<longrightarrow> length ?expected \<le> k)"
    using k run l unfolding ff by (intro exI [of _ k]) simp
  show "\<exists>x \<in> set receipts.
           r_status x = DsFailed
           \<and> (channel = None \<or> Some (r_channel x) = channel)
           \<and> c = TransportSend (r_channel x) n"
    if "c \<in> set (fst (snd ?run))" and "isTransportSend c" for c
  proof -
    from that have "c \<in> set (filter isTransportSend (fst (snd ?run)))" by simp
    then have "c \<in> set (take k (map (\<lambda>x. TransportSend (r_channel x) n) ?expected))"
      unfolding sends .
    then have "c \<in> set (map (\<lambda>x. TransportSend (r_channel x) n) ?expected)"
      by (rule in_set_takeD)
    then obtain x where "x \<in> set ?expected" and "c = TransportSend (r_channel x) n"
      by auto
    then show ?thesis by auto
  qed
  show "snd (snd ?run)
          = foldl (retryOnce center n) (snd s2)
              (filter (\<lambda>x. r_status x = DsFailed
                           \<and> (channel = None \<or> Some (r_channel x) = channel))
                 receipts)"
    if "fst ?run = Inr ()"
  proof -
    from that run l have "retryLoop center n (failedReceipts channel receipts) s2 = (Inr (), s')"
      by simp
    from retryLoop_world [OF this] run l show ?thesis
      by (simp add: failedReceipts_def)
  qed
  show "\<exists>x \<in> set receipts.
           r_status x = DsFailed
           \<and> (channel = None \<or> Some (r_channel x) = channel)
           \<and> (\<exists>transport wBefore.
                 c_transports center (r_channel x) = Some transport
                 \<and> (fst (st_getPreferences (c_storage center) (n_userId n) wBefore) = Inl e
                     \<or> (\<exists>prefs. fst (ta_send transport n prefs wBefore) = Inl e)))"
    if "fst ?run = Inl e" for e
  proof -
    from that run l have "retryLoop center n (failedReceipts channel receipts) s2 = (Inl e, s')"
      by simp
    from retryLoop_rejects [OF this] obtain x transport wBefore where
      x: "x \<in> set (failedReceipts channel receipts)"
        "c_transports center (r_channel x) = Some transport"
        "st_getPreferences (c_storage center) (n_userId n) wBefore = (Inl e, snd s')
         \<or> (\<exists>prefs. ta_send transport n prefs wBefore = (Inl e, snd s'))"
      by blast
    from x(3) have "fst (st_getPreferences (c_storage center) (n_userId n) wBefore) = Inl e
        \<or> (\<exists>prefs. fst (ta_send transport n prefs wBefore) = Inl e)"
      by (metis fst_conv)
    with x(1,2) show ?thesis
      by (intro bexI [of _ x]) (auto simp: failedReceipts_def)
  qed
qed

text \<open>
  The stored receipts failed, delivered of the channel email: one send, by email. Two
  failed receipts, email and sms, and an email transport that throws again: the retry
  ends at the first, and sms is not retried.
\<close>

theorem retryFailed_sends_witness:
  "retryFailed emailCenter ''notif_404'' (Some email) ([], retryWorld)
     = (Inl (Error ''Notification notif_404 not found''), ([StorageFindById ''notif_404''], retryWorld))
   \<and> fst (retryFailed emailCenter ''notif_1700000000000_k3x9q2a7b'' (Some email) ([], retryWorld))
     = Inr ()
   \<and> filter isTransportSend
        (fst (snd (retryFailed emailCenter ''notif_1700000000000_k3x9q2a7b'' (Some email)
                     ([], retryWorld))))
     = [TransportSend email (sampleNotification [email])]
   \<and> snd (snd (retryFailed emailCenter ''notif_1700000000000_k3x9q2a7b'' (Some email)
                  ([], retryWorld)))
     = retryWorld
   \<and> retryFailed stillFailingCenter ''notif_1700000000000_k3x9q2a7b'' None ([], twiceFailedWorld)
     = (Inl (Error ''mailbox full''),
        ([StorageFindById ''notif_1700000000000_k3x9q2a7b'',
          StorageGetReceipts ''notif_1700000000000_k3x9q2a7b'',
          StorageGetPreferences ''u1'',
          TransportSend email (sampleNotification [email, sms])],
         twiceFailedWorld))"
proof -
  let ?id = "''notif_1700000000000_k3x9q2a7b''"
  let ?run = "retryFailed emailCenter ?id (Some email) ([], retryWorld)"
  have missing: "st_findById (c_storage emailCenter) ''notif_404'' retryWorld = (Inr None, retryWorld)"
    by (simp add: emailCenter_def retryWorld_def memory_defs)
  have f: "st_findById (c_storage emailCenter) ?id retryWorld
      = (Inr (Some (sampleNotification [email])), retryWorld)"
    by (simp add: emailCenter_def retryWorld_def memory_defs)
  have g: "getDeliveryStatus emailCenter ?id ([StorageFindById ?id], retryWorld)
      = (Inr [failedEmailReceipt, deliveredEmailReceipt],
         ([StorageFindById ?id, StorageGetReceipts ?id], retryWorld))"
    by (simp add: emailCenter_def retryWorld_def engine_defs async_defs memory_defs)
  have ok: "fst ?run = Inr ()"
    by (simp add: emailCenter_def retryWorld_def failedEmailReceipt_def deliveredEmailReceipt_def
        engine_defs async_defs memory_defs)
  have sel: "filter (\<lambda>x. (r_status x = DsFailed \<and> (Some email = None \<or> Some (r_channel x) = Some email))
                    \<and> c_transports emailCenter (r_channel x) \<noteq> None)
               [failedEmailReceipt, deliveredEmailReceipt] = [failedEmailReceipt]"
    by (simp add: emailCenter_def failedEmailReceipt_def deliveredEmailReceipt_def memory_defs)
  have sel': "filter (\<lambda>x. r_status x = DsFailed \<and> (Some email = None \<or> Some (r_channel x) = Some email))
               [failedEmailReceipt, deliveredEmailReceipt] = [failedEmailReceipt]"
    by (simp add: failedEmailReceipt_def deliveredEmailReceipt_def)
  have once: "retryOnce emailCenter (sampleNotification [email]) retryWorld failedEmailReceipt
      = retryWorld"
    by (simp add: retryOnce_def emailCenter_def reportingTransport_def failedEmailReceipt_def
        memory_defs)
  note inst = retryFailed_sends [of emailCenter _ retryWorld retryWorld "Some email"]
  from inst [of "''notif_404''"] missing
  have first: "retryFailed emailCenter ''notif_404'' (Some email) ([], retryWorld)
     = (Inl (Error ''Notification notif_404 not found''), ([StorageFindById ''notif_404''], retryWorld))"
    by simp
  note found = inst [of ?id, THEN conjunct2, rule_format, OF conjI [OF f g]]
  from found [THEN conjunct1]
  have "\<exists>k. filter isTransportSend (fst (snd ?run))
          = take k (map (\<lambda>x. TransportSend (r_channel x) (sampleNotification [email]))
                      [failedEmailReceipt])
        \<and> (fst ?run = Inr () \<longrightarrow> length [failedEmailReceipt] \<le> k)"
    unfolding sel .
  then obtain k where
    "filter isTransportSend (fst (snd ?run))
          = take k [TransportSend (r_channel failedEmailReceipt) (sampleNotification [email])]"
    and "1 \<le> k"
    using ok by auto
  then have sends: "filter isTransportSend (fst (snd ?run))
      = [TransportSend email (sampleNotification [email])]"
    by (cases k) (simp_all add: failedEmailReceipt_def)
  from found [THEN conjunct2, THEN conjunct2, THEN conjunct1] ok
  have world: "snd (snd ?run) = retryWorld"
    unfolding sel' by (simp add: once)
  have again: "retryFailed stillFailingCenter ?id None ([], twiceFailedWorld)
     = (Inl (Error ''mailbox full''),
        ([StorageFindById ?id, StorageGetReceipts ?id, StorageGetPreferences ''u1'',
          TransportSend email (sampleNotification [email, sms])],
         twiceFailedWorld))"
    by (simp add: stillFailingCenter_def twiceFailedWorld_def failedEmailReceipt_def
        throwingTransport_def reportingTransport_def sampleNotification_def
        engine_defs async_defs memory_defs)
  from first ok sends world again show ?thesis by (intro conjI)
qed

section \<open>A notification filtered by the pre-dispatch chain\<close>







section \<open>Errors and the on-error chain\<close>













lemma enqueueDelayed_throws:
  "c_queue center = Some queue \<Longrightarrow> n_scheduledFor n = Some scheduledFor
   \<Longrightarrow> Date_now center (snd s) = (now, w1)
   \<Longrightarrow> qa_enqueueDelayed queue n (scheduledFor - now) w1 = (Inl e, w')
   \<Longrightarrow> enqueueOrSend center n s
       = (Inl (e, n), (fst s @ [QueueEnqueueDelayed n (scheduledFor - now)], w'))"
  by (simp add: enqueueOrSend_def holding_def andThen_def invoke_def readClock_def)

lemma preferences_throw:
  "c_queue center = None
   \<Longrightarrow> st_getPreferences (c_storage center) (n_userId n) (snd s) = (Inl e, w')
   \<Longrightarrow> enqueueOrSend center n s
       = (Inl (e, n), (fst s @ [StorageGetPreferences (n_userId n)], w'))"
  by (simp add: enqueueOrSend_def sendNow_def holding_def andThen_def invoke_def)

lemma status_save_throws:
  "c_queue center = None
   \<Longrightarrow> st_getPreferences (c_storage center) (n_userId n) (snd s) = (Inr prefs, w1)
   \<Longrightarrow> promiseAll (map (deliverToChannel center n prefs) (n_channels n))
         (fst s @ [StorageGetPreferences (n_userId n)], w1) = (Inr receipts, s2)
   \<Longrightarrow> updated = n \<lparr> n_status := (if allFailed receipts then StFailed
                                   else if anyDelivered receipts then StDelivered else StSent) \<rparr>
   \<Longrightarrow> st_save (c_storage center) updated (snd s2) = (Inl e, w')
   \<Longrightarrow> enqueueOrSend center n s = (Inl (e, updated), (fst s2 @ [StorageSave updated], w'))"
  by (simp add: enqueueOrSend_def sendNow_def holding_def andThen_def invoke_def Let_def)

lemma canSend_throws:
  "c_queue center = None \<Longrightarrow> n_channels n = [channel]
   \<Longrightarrow> c_transports center channel = Some transport
   \<Longrightarrow> st_getPreferences (c_storage center) (n_userId n) (snd s) = (Inr prefs, w1)
   \<Longrightarrow> ta_canSend transport n prefs w1 = (Inl e, w')
   \<Longrightarrow> enqueueOrSend center n s
       = (Inl (e, n),
          (fst s @ [StorageGetPreferences (n_userId n), TransportCanSend channel n], w'))"
  by (simp add: enqueueOrSend_def sendNow_def holding_def andThen_def invoke_def promiseAll_def
      deliverToChannel_def)

lemma afterSendLoop_append:
  "afterSendLoop (pre @ post) n s
     = (case afterSendLoop pre n s of
          (Inl e, s') \<Rightarrow> (Inl e, s')
        | (Inr u, s') \<Rightarrow> afterSendLoop post n s')"
proof (induction pre arbitrary: s)
  case Nil
  then show ?case by (simp add: resolve_def)
next
  case (Cons m pre)
  then show ?case
    by (cases "m_afterSend m") (auto simp: andThen_def split: prod.splits sum.splits)
qed

lemma afterSend_hook_throws:
  "c_middleware center = pre @ m # post
   \<Longrightarrow> afterSendLoop pre n s = (Inr (), s1)
   \<Longrightarrow> m_afterSend m = Some hook \<Longrightarrow> hook n (snd s1) = (Inl e, w')
   \<Longrightarrow> applyAfterSendMiddleware center n s
       = (Inl e, (fst s1 @ [AfterSendCall (m_name m) n], w'))"
  by (simp add: applyAfterSendMiddleware_def afterSendLoop_append andThen_def invoke_def)

lemma forEachCallback_append:
  "forEachCallback c (pre @ post) s
     = (case forEachCallback c pre s of
          (Inl e, s') \<Rightarrow> (Inl e, s')
        | (Inr u, s') \<Rightarrow> forEachCallback c post s')"
proof (induction pre arbitrary: s)
  case Nil
  then show ?case by (simp add: resolve_def)
next
  case (Cons callback pre)
  then show ?case by (auto simp: andThen_def split: prod.splits sum.splits)
qed

lemma subscriber_throws:
  "c_subscribers center (n_userId n) = Some (pre @ callback # post)
   \<Longrightarrow> forEachCallback (SubscriberCall (n_userId n) n) (map (\<lambda>callback. callback n) pre) s
       = (Inr (), s1)
   \<Longrightarrow> callback n (snd s1) = (Inl e, w')
   \<Longrightarrow> notifySubscribers center n s = (Inl e, (fst s1 @ [SubscriberCall (n_userId n) n], w'))"
  by (simp add: notifySubscribers_def forEachCallback_append andThen_def invoke_def)



lemma eventSubscriber_throws:
  "c_eventSubscribers center (n_userId (ev_notification event)) = Some (pre @ callback # post)
   \<Longrightarrow> forEachCallback (EventSubscriberCall (n_userId (ev_notification event)) event)
         (map (\<lambda>callback. callback event) pre) s = (Inr (), s1)
   \<Longrightarrow> callback event (snd s1) = (Inl e, w')
   \<Longrightarrow> notifyEventSubscribers center event s
       = (Inl e, (fst s1 @ [EventSubscriberCall (n_userId (ev_notification event)) event], w'))"
  by (simp add: notifyEventSubscribers_def forEachCallback_append andThen_def invoke_def)

text \<open>
  Followed from \<open>await\<close> to \<open>await\<close>, a channel operation is the operation
  \<open>deliverToChannel\<close>; and with no other operation going on, \<open>catchAmid\<close> is the
  \<open>catch\<close> block of \<open>send\<close>.
\<close>

lemma deliverToChannel_phases:
  "(case startChannel center n prefs channel s of
      (p0, s0) \<Rightarrow>
        (case resumeChannel center n channel p0 s0 of
           (p1, s1) \<Rightarrow>
             (case resumeChannel center n channel p1 s1 of
                (p2, s2) \<Rightarrow> resumeChannel center n channel p2 s2)))
   = (Settled (fst (deliverToChannel center n prefs channel s)),
      snd (deliverToChannel center n prefs channel s))"
  by (simp add: startChannel_def catchOfChannel_def deliverToChannel_def
      saveReceiptIfSupported_def andThen_def tryCatch_def invoke_def resolve_def readClock_def
      Let_def split: prod.splits sum.splits option.splits)

lemma meanwhile_nothing: "meanwhile center n [] c = c"
  by (simp add: meanwhile_def)

lemma errorLoopAmid_alone:
  "errorLoopAmid center [] ms e n (ps, s)
     = (case errorLoop ms e n s of (r, s') \<Rightarrow> (r, (ps, s')))"
proof (induction ms arbitrary: s)
  case Nil
  show ?case by (simp add: resolve_def)
next
  case (Cons m ms)
  show ?case
  proof (cases "m_onError m")
    case None
    with Cons show ?thesis by simp
  next
    case (Some hook)
    with Cons show ?thesis
      by (simp add: andThen_def meanwhile_def split: prod.splits sum.splits)
  qed
qed

lemma catchAmid_alone:
  "catchAmid center [] e n (ps, s)
     = andThen (applyErrorMiddleware center e n) (\<lambda>_. reject e) s"
  by (simp add: catchAmid_def meanwhile_def errorLoopAmid_alone applyErrorMiddleware_def
      andThen_def reject_def split: prod.splits sum.splits)
















section \<open>Building from a template\<close>

text \<open>
  C4, as stated, fails: the source takes a field from the input with \<open>||\<close>, so a title
  the caller supplies as the empty string is replaced by the template's title.
\<close>

theorem build_empty_title_counterexample:
  "i_title (welcomeInput\<lparr> i_title := Some [] \<rparr>) = Some []
   \<and> map_sum id n_title
        (fst (buildNotification welcomeCenter (welcomeInput\<lparr> i_title := Some [] \<rparr>)
               ([], emptyWorld)))
     = Inr (Some ''Welcome Ann'')"
  by (simp add: welcomeCenter_def welcomeInput_def welcomeTemplate_def
      engine_defs async_defs memory_defs)

lemmas build_defs = buildNotification_def buildFromTemplate_def generateId_def resolveText_def
  or_string_def andThen_def resolve_def reject_def readClock_def readRandom_def

text \<open>
  C4, amended. For an input that names a template by a non-empty id: when the template
  is not registered, \<open>send\<close> rejects with the template-not-found error and calls no
  collaborator. When it is registered and its title and body (the literal, or the
  function applied to \<open>input.data\<close>) evaluate to \<open>title\<close> and \<open>body\<close>, the notification
  is built with: the input's title, body and category where these are present and not
  the empty string, the template's otherwise; the input's channels unless that list is
  empty, the template's then; the input's priority if present, the template's otherwise;
  the input's \<open>expiresAt\<close> if present, otherwise the third clock reading of the build
  plus the template's \<open>expiresIn\<close> when that is present and not zero, and none otherwise.
\<close>

theorem buildNotification_from_template:
  fixes center :: "('d, 'w) NotificationCenter"
  assumes named: "i_template input = Some templateId" and nonempty: "templateId \<noteq> []"
  shows "(c_templates center templateId = None
          \<longrightarrow> send center input s
              = (Inl (Error (''Template '' @ templateId @ '' not found'')), s))
    \<and> (\<forall>template title body.
          c_templates center templateId = Some template
          \<and> (case t_title template of Literal x \<Rightarrow> Inr x | Computed f \<Rightarrow> f (i_data input))
              = Inr title
          \<and> (case t_body template of Literal x \<Rightarrow> Inr x | Computed f \<Rightarrow> f (i_data input))
              = Inr body
          \<longrightarrow> (\<exists>built s'.
                buildNotification center input s = (Inr built, s')
                \<and> n_title built = (if truthy_string (i_title input) then i_title input else Some title)
                \<and> n_body built = (if truthy_string (i_body input) then i_body input else Some body)
                \<and> n_channels built
                    = (if i_channels input = [] then t_channels template else i_channels input)
                \<and> n_category built
                    = (if truthy_string (i_category input) then i_category input
                       else t_category template)
                \<and> n_priority built
                    = (case i_priority input of Some p \<Rightarrow> p | None \<Rightarrow> t_priority template)
                \<and> n_expiresAt built
                    = (case i_expiresAt input of
                         Some d \<Rightarrow> Some d
                       | None \<Rightarrow>
                           (case t_expiresIn template of
                              None \<Rightarrow> None
                            | Some expiresIn \<Rightarrow>
                                if expiresIn = 0 then None
                                else Some (fst (Date_now center
                                             (snd (Date_now center
                                               (snd (Math_random center
                                                 (snd (Date_now center (snd s)))))))) + expiresIn)))))"
proof (intro conjI allI impI)
  assume "c_templates center templateId = None"
  with named nonempty
  show "send center input s = (Inl (Error (''Template '' @ templateId @ '' not found'')), s)"
    by (simp add: send_def build_defs)
next
  fix template title body
  assume "c_templates center templateId = Some template
          \<and> (case t_title template of Literal x \<Rightarrow> Inr x | Computed f \<Rightarrow> f (i_data input))
              = Inr title
          \<and> (case t_body template of Literal x \<Rightarrow> Inr x | Computed f \<Rightarrow> f (i_data input))
              = Inr body"
  then have t: "c_templates center templateId = Some template"
    and ti: "templateText (t_title template) (i_data input) = Inr title"
    and bo: "templateText (t_body template) (i_data input) = Inr body"
    by (simp_all add: templateText_def)
  obtain t1 w1 where c1: "Date_now center (snd s) = (t1, w1)" by (cases "Date_now center (snd s)")
  obtain r w2 where c2: "Math_random center w1 = (r, w2)" by (cases "Math_random center w1")
  obtain t2 w3 where c3: "Date_now center w2 = (t2, w3)" by (cases "Date_now center w2")
  obtain t3 w4 where c4: "Date_now center w3 = (t3, w4)" by (cases "Date_now center w3")
  show "\<exists>built s'.
                buildNotification center input s = (Inr built, s')
                \<and> n_title built = (if truthy_string (i_title input) then i_title input else Some title)
                \<and> n_body built = (if truthy_string (i_body input) then i_body input else Some body)
                \<and> n_channels built
                    = (if i_channels input = [] then t_channels template else i_channels input)
                \<and> n_category built
                    = (if truthy_string (i_category input) then i_category input
                       else t_category template)
                \<and> n_priority built
                    = (case i_priority input of Some p \<Rightarrow> p | None \<Rightarrow> t_priority template)
                \<and> n_expiresAt built
                    = (case i_expiresAt input of
                         Some d \<Rightarrow> Some d
                       | None \<Rightarrow>
                           (case t_expiresIn template of
                              None \<Rightarrow> None
                            | Some expiresIn \<Rightarrow>
                                if expiresIn = 0 then None
                                else Some (fst (Date_now center
                                             (snd (Date_now center
                                               (snd (Math_random center
                                                 (snd (Date_now center (snd s)))))))) + expiresIn)))"
    using named nonempty t ti bo c1 c2 c3 c4
    by (simp add: build_defs split: option.splits)
qed


text \<open>
  The welcome template with \<open>{template: "welcome", userId: "u1", data: {name: "Ann"},
  channels: []}\<close>: the title is \<open>Welcome Ann\<close>, the channels are the template's, the
  expiry is the clock plus the template's offset. An unregistered id is rejected.
\<close>

theorem buildNotification_from_template_witness:
  "map_sum id n_title (fst (buildNotification welcomeCenter welcomeInput ([], emptyWorld)))
     = Inr (Some ''Welcome Ann'')
   \<and> map_sum id n_channels (fst (buildNotification welcomeCenter welcomeInput ([], emptyWorld)))
     = Inr [inapp, email]
   \<and> map_sum id n_expiresAt (fst (buildNotification welcomeCenter welcomeInput ([], emptyWorld)))
     = Inr (Some 1700086400000)
   \<and> send welcomeCenter (welcomeInput\<lparr> i_template := Some ''goodbye'' \<rparr>) ([], emptyWorld)
     = (Inl (Error ''Template goodbye not found''), ([], emptyWorld))"
proof -
  let ?s = "([], emptyWorld) :: ((string \<times> string) list, (string \<times> string) list MemoryWorld) state"
  have named: "i_template welcomeInput = Some ''welcome''" by (simp add: welcomeInput_def)
  have nonempty: "''welcome'' \<noteq> []" by simp
  have registered: "c_templates welcomeCenter ''welcome'' = Some welcomeTemplate"
    by (simp add: welcomeCenter_def)
  have title: "(case t_title welcomeTemplate of Literal x \<Rightarrow> Inr x
                | Computed f \<Rightarrow> f (i_data welcomeInput)) = Inr ''Welcome Ann''"
    by (simp add: welcomeTemplate_def welcomeInput_def)
  have body: "(case t_body welcomeTemplate of Literal x \<Rightarrow> Inr x
                | Computed f \<Rightarrow> f (i_data welcomeInput)) = Inr ''Thanks for joining''"
    by (simp add: welcomeTemplate_def welcomeInput_def)
  from buildNotification_from_template [OF named nonempty, of welcomeCenter ?s]
    registered title body
  obtain built s' where
    built: "buildNotification welcomeCenter welcomeInput ?s = (Inr built, s')"
      "n_title built = (if truthy_string (i_title welcomeInput) then i_title welcomeInput
                        else Some ''Welcome Ann'')"
      "n_channels built = (if i_channels welcomeInput = [] then t_channels welcomeTemplate
                           else i_channels welcomeInput)"
      "n_expiresAt built
                    = (case i_expiresAt welcomeInput of
                         Some d \<Rightarrow> Some d
                       | None \<Rightarrow>
                           (case t_expiresIn welcomeTemplate of
                              None \<Rightarrow> None
                            | Some expiresIn \<Rightarrow>
                                if expiresIn = 0 then None
                                else Some (fst (Date_now welcomeCenter
                                             (snd (Date_now welcomeCenter
                                               (snd (Math_random welcomeCenter
                                                 (snd (Date_now welcomeCenter (snd ?s)))))))) + expiresIn)))"
    by blast
  have unknown: "i_template (welcomeInput\<lparr> i_template := Some ''goodbye'' \<rparr>) = Some ''goodbye''"
    by simp
  have absent: "c_templates welcomeCenter ''goodbye'' = None"
    by (simp add: welcomeCenter_def)
  from buildNotification_from_template [OF unknown, of welcomeCenter ?s] absent
  have "send welcomeCenter (welcomeInput\<lparr> i_template := Some ''goodbye'' \<rparr>) ?s
     = (Inl (Error ''Template goodbye not found''), ?s)"
    by simp
  with built show ?thesis
    by (simp add: welcomeInput_def welcomeTemplate_def welcomeCenter_def truthy_string_def
        memory_defs)
qed

section \<open>Channels and id of a sent notification\<close>




















end
